theory Spec2Isabelle
  imports Main "HOL-Library.AList"
begin

section \<open>Shared error taxonomy\<close>

text \<open>
  The adapters return Go \<open>error\<close> values. The named errors of the host application
  (\<open>ErrNotFound\<close>, \<open>ErrNotAllowed\<close>, ...) are constructors; \<open>AppError\<close> is
  \<open>NewError(message, status)\<close>; \<open>GoftpError\<close> is a \<open>goftp.Error\<close> with its
  \<open>Code()\<close>; \<open>OsError\<close> is an error of the operating-system kind that
  \<open>os.IsPermission\<close> and \<open>os.IsNotExist\<close> classify; \<open>OtherError\<close> is any other
  error. A Go \<open>error\<close> that may be \<open>nil\<close> is an \<open>error option\<close>.
\<close>

datatype os_kind = Permission | NotExist | OtherKind

datatype error =
    ErrAuthenticationFailed
  | ErrNotFound
  | ErrPermissionDenied
  | ErrNotAllowed
  | ErrNotImplemented
  | ErrClosedPipe
  | AppError string int
  | GoftpError int string
  | OsError os_kind string
  | OtherError string

section \<open>The string functions of Go's \<open>strings\<close> package that the adapters call\<close>

definition TrimLeft :: "string \<Rightarrow> string \<Rightarrow> string" where
  "TrimLeft s cutset = dropWhile (\<lambda>c. c \<in> set cutset) s"

definition TrimRight :: "string \<Rightarrow> string \<Rightarrow> string" where
  "TrimRight s cutset = rev (dropWhile (\<lambda>c. c \<in> set cutset) (rev s))"

definition Trim :: "string \<Rightarrow> string \<Rightarrow> string" where
  "Trim s cutset = TrimRight (TrimLeft s cutset) cutset"

text \<open>\<open>strings.Split(s, sep)\<close> for a one-byte separator, the only way the source calls it.
  The result is never empty: splitting the empty string gives one empty field.\<close>

fun Split :: "string \<Rightarrow> char \<Rightarrow> string list" where
  "Split [] sep = [[]]"
| "Split (c # s) sep =
     (if c = sep then [] # Split s sep
      else (case Split s sep of [] \<Rightarrow> [[c]] | w # ws \<Rightarrow> (c # w) # ws))"

fun Join :: "string list \<Rightarrow> string \<Rightarrow> string" where
  "Join [] sep = []"
| "Join [x] sep = x"
| "Join (x # y # ys) sep = x @ sep @ Join (y # ys) sep"

definition HasSuffix :: "string \<Rightarrow> string \<Rightarrow> bool" where
  "HasSuffix s suf = (length suf \<le> length s \<and> drop (length s - length suf) s = suf)"

definition HasPrefix :: "string \<Rightarrow> string \<Rightarrow> bool" where
  "HasPrefix s pre = (take (length pre) s = pre)"

definition TrimPrefix :: "string \<Rightarrow> string \<Rightarrow> string" where
  "TrimPrefix s pre = (if HasPrefix s pre then drop (length pre) s else s)"

section \<open>The SMB adapter: data and path resolution\<close>

text \<open>
  \<open>type Samba struct { session *smb2.Session; share map[string]*smb2.Share }\<close>.
  Session and share pointers are handles (natural numbers). The Go map is an
  association list with distinct keys, because \<open>Ls\<close> iterates over it; the order of
  a Go map iteration is unspecified, the list fixes one.
\<close>

type_synonym session_h = nat
type_synonym share_h = nat

record Samba =
  session :: session_h
  share :: "(string \<times> share_h) list"

definition backslash :: string where
  "backslash = [CHR 0x5C]"

text \<open>\<open>Samba.toSambaPath\<close>: the share handle, the native path, or the error.\<close>

definition toSambaPath :: "Samba \<Rightarrow> string \<Rightarrow> error + (share_h \<times> string)" where
  "toSambaPath smb path =
     (let p = Split (Trim path ''/'') CHR ''/'' in
      if length p = 0 then Inl ErrNotAllowed
      else
        let sharename = hd p;
            oPath = TrimLeft (Join (tl p) backslash) backslash
        in (case map_of (share smb) sharename of
              None \<Rightarrow> Inl ErrNotFound
            | Some sh \<Rightarrow> Inr (sh, oPath)))"

section \<open>Connection parameters and the connection cache\<close>

text \<open>
  \<open>map[string]string\<close>. Reading a missing key gives the empty string, so the source
  cannot tell a missing key from a key bound to the empty string.
\<close>

type_synonym params = "string \<rightharpoonup> string"

definition param :: "params \<Rightarrow> string \<Rightarrow> string" where
  "param m k = (case m k of None \<Rightarrow> [] | Some v \<Rightarrow> v)"

text \<open>
  Modelled from the spec: \<open>AppCache\<close> (\<open>NewAppCache\<close>, \<open>Get\<close>, \<open>Set\<close>, \<open>OnEvict\<close>)
  of the host's \<open>server/common\<close> package is not among the sources. The spec's contract:
  \<open>get(key)\<close> looks the entry up by exact key equality and gives the value or absent;
  \<open>set(key, value)\<close> inserts or replaces the entry; two parameter sets are equal iff
  their key/value content is identical. The cache is the map from parameter content to
  value. Capacity, expiry and the eviction callback are left out: an entry stays until
  it is replaced.
\<close>

type_synonym 'a AppCache = "params \<rightharpoonup> 'a"

definition cache_Get :: "'a AppCache \<Rightarrow> params \<Rightarrow> 'a option" where
  "cache_Get c key = c key"

definition cache_Set :: "'a AppCache \<Rightarrow> params \<Rightarrow> 'a \<Rightarrow> 'a AppCache" where
  "cache_Set c key v = c(key \<mapsto> v)"

section \<open>The FTP protocol library as a parameter\<close>

text \<open>
  The \<open>goftp\<close> client is an external collaborator. Each call the adapter makes is a
  field of the record below: it takes the state of the outside world (the network and
  the server, of any type \<open>'w\<close>) and returns its result with the new state of the
  world. A function of the adapter that leaves the world as it was has made no call.
  A \<open>*goftp.Client\<close> is a handle.
\<close>

type_synonym client_h = nat

record Config =
  User :: string
  Password :: string
  ConnectionsPerHost :: int
  Timeout :: nat \<comment> \<open>seconds\<close>

text \<open>What \<open>Ftp.Rm\<close> reads of an \<open>os.FileInfo\<close>.\<close>

record FileInfo =
  Name :: string
  IsDir :: bool

text \<open>An \<open>io.Reader\<close>: the bytes it yields and how it ends (end of file, or an error).\<close>

datatype Reader = Reader string "error option"

definition NewReader :: "string \<Rightarrow> Reader" where
  "NewReader s = Reader s None"

record 'w goftp =
  ftp_DialConfig :: "Config \<Rightarrow> string \<Rightarrow> 'w \<Rightarrow> (error + client_h) \<times> 'w"
  ftp_ReadDir :: "client_h \<Rightarrow> string \<Rightarrow> 'w \<Rightarrow> (FileInfo list \<times> error option) \<times> 'w"
  ftp_Close :: "client_h \<Rightarrow> 'w \<Rightarrow> error option \<times> 'w"
  ftp_Delete :: "client_h \<Rightarrow> string \<Rightarrow> 'w \<Rightarrow> error option \<times> 'w"
  ftp_Rmdir :: "client_h \<Rightarrow> string \<Rightarrow> 'w \<Rightarrow> error option \<times> 'w"
  ftp_Store :: "client_h \<Rightarrow> string \<Rightarrow> Reader \<Rightarrow> 'w \<Rightarrow> error option \<times> 'w"
  ftp_Retrieve :: "client_h \<Rightarrow> string \<Rightarrow> 'w \<Rightarrow> (string \<times> error option) \<times> 'w"

section \<open>The FTP adapter\<close>

record Ftp =
  client :: client_h

text \<open>The package state: the global \<open>FtpCache\<close> and the world.\<close>

record 'w ftp_state =
  FtpCache :: "Ftp AppCache"
  ftp_world :: 'w

subsection \<open>\<open>strconv.Atoi\<close>\<close>

text \<open>
  An optional sign, then one or more decimal digits; \<open>None\<close> is the error return
  (a syntax error, or a value outside the 64-bit \<open>int\<close>).
\<close>

definition digit_val :: "char \<Rightarrow> int option" where
  "digit_val c =
     (let n = (of_char c :: nat) in if 48 \<le> n \<and> n \<le> 57 then Some (int n - 48) else None)"

fun parse_digits :: "string \<Rightarrow> int \<Rightarrow> int option" where
  "parse_digits [] acc = Some acc"
| "parse_digits (c # cs) acc =
     (case digit_val c of None \<Rightarrow> None | Some d \<Rightarrow> parse_digits cs (acc * 10 + d))"

definition Atoi :: "string \<Rightarrow> int option" where
  "Atoi s =
     (let neg = (s \<noteq> [] \<and> hd s = CHR ''-'');
          ds = (if s \<noteq> [] \<and> (hd s = CHR ''+'' \<or> hd s = CHR ''-'') then tl s else s)
      in if ds = [] then None
         else (case parse_digits ds 0 of
                 None \<Rightarrow> None
               | Some n \<Rightarrow>
                   let v = (if neg then - n else n)
                   in if - (2 ^ 63) \<le> v \<and> v < 2 ^ 63 then Some v else None))"

subsection \<open>\<open>Ftp.Init\<close>\<close>

text \<open>Lines 38 to 50: the defaults are written into the caller's map, in this order.\<close>

definition Ftp_defaults :: "params \<Rightarrow> params" where
  "Ftp_defaults params =
     (let p1 = (if param params ''hostname'' = [] then params(''hostname'' \<mapsto> ''localhost'')
                else params);
          p2 = (if param p1 ''port'' = [] then p1(''port'' \<mapsto> ''21'') else p1);
          p3 = (if param p2 ''username'' = [] then p2(''username'' \<mapsto> ''anonymous'') else p2)
      in if param p3 ''username'' = ''anonymous'' \<and> param p3 ''password'' = []
         then p3(''password'' \<mapsto> ''anonymous'') else p3)"

text \<open>Lines 51 to 56: the connection count.\<close>

definition Ftp_conn :: "params \<Rightarrow> int" where
  "Ftp_conn params =
     (if param params ''conn'' \<noteq> []
      then (case Atoi (param params ''conn'') of
              Some i \<Rightarrow> if i > 0 then i else 5
            | None \<Rightarrow> 5)
      else 5)"

text \<open>Lines 58 to 63 and the address of line 67: what is dialed.\<close>

definition Ftp_config :: "params \<Rightarrow> Config" where
  "Ftp_config params =
     \<lparr>User = param params ''username'', Password = param params ''password'',
      ConnectionsPerHost = Ftp_conn params, Timeout = 10\<rparr>"

definition Ftp_addr :: "params \<Rightarrow> string" where
  "Ftp_addr params =
     TrimPrefix (param params ''hostname'') ''ftp://'' @ '':'' @ param params ''port''"

text \<open>
  \<open>Ftp.Init\<close> returns the adapter or the error, the caller's parameter map as the call
  leaves it (Go maps are shared, the defaults are written into it), and the new state.
\<close>

definition Ftp_Init ::
  "'w goftp \<Rightarrow> params \<Rightarrow> 'w ftp_state \<Rightarrow> (error + Ftp) \<times> params \<times> 'w ftp_state" where
  "Ftp_Init lib params st =
     (case cache_Get (FtpCache st) params of
        Some d \<Rightarrow> (Inr d, params, st)
      | None \<Rightarrow>
          let params' = Ftp_defaults params in
          (case ftp_DialConfig lib (Ftp_config params') (Ftp_addr params') (ftp_world st) of
             (Inl err, w1) \<Rightarrow> (Inl err, params', st\<lparr>ftp_world := w1\<rparr>)
           | (Inr cl, w1) \<Rightarrow>
               (case ftp_ReadDir lib cl ''/'' w1 of
                  ((_, Some err), w2) \<Rightarrow>
                    (case ftp_Close lib cl w2 of
                       (_, w3) \<Rightarrow> (Inl ErrAuthenticationFailed, params', st\<lparr>ftp_world := w3\<rparr>))
                | ((_, None), w2) \<Rightarrow>
                    let backend = \<lparr>client = cl\<rparr>
                    in (Inr backend, params',
                        \<lparr>FtpCache = cache_Set (FtpCache st) params' backend, ftp_world = w2\<rparr>))))"

subsection \<open>\<open>Ftp.Ls\<close>, \<open>Ftp.Touch\<close>, \<open>Ftp.Save\<close>\<close>

definition Ftp_Ls ::
  "'w goftp \<Rightarrow> Ftp \<Rightarrow> string \<Rightarrow> 'w \<Rightarrow> (FileInfo list \<times> error option) \<times> 'w" where
  "Ftp_Ls lib f path w = ftp_ReadDir lib (client f) path w"

definition Ftp_Touch :: "'w goftp \<Rightarrow> Ftp \<Rightarrow> string \<Rightarrow> 'w \<Rightarrow> error option \<times> 'w" where
  "Ftp_Touch lib f path w = ftp_Store lib (client f) path (NewReader []) w"

definition Ftp_Save :: "'w goftp \<Rightarrow> Ftp \<Rightarrow> string \<Rightarrow> Reader \<Rightarrow> 'w \<Rightarrow> error option \<times> 'w" where
  "Ftp_Save lib f path file w = ftp_Store lib (client f) path file w"

subsection \<open>\<open>Ftp.Rm\<close>\<close>

text \<open>The regular expression \<open>\/$\<close> matches exactly the strings that end in a slash.\<close>

definition isDirectory :: "string \<Rightarrow> bool" where
  "isDirectory p = (p \<noteq> [] \<and> last p = CHR ''/'')"

definition transformError :: "error option \<Rightarrow> error option" where
  "transformError e =
     (case e of
        None \<Rightarrow> None
      | Some (GoftpError code msg) \<Rightarrow> if code < 300 \<and> code > 0 then None else e
      | Some _ \<Rightarrow> e)"

text \<open>
  The recursion of \<open>Ftp.Rm\<close> follows what the server lists, so nothing in the code
  bounds it. The first argument is the recursion depth allowed; \<open>None\<close> is a call
  that needs more. \<open>Ftp_Rm_entries\<close> is the \<open>for\<close> loop over the listed entries.
\<close>

fun Ftp_Rm :: "nat \<Rightarrow> 'w goftp \<Rightarrow> Ftp \<Rightarrow> string \<Rightarrow> 'w \<Rightarrow> (error option \<times> 'w) option"
  and Ftp_Rm_entries ::
    "nat \<Rightarrow> 'w goftp \<Rightarrow> Ftp \<Rightarrow> string \<Rightarrow> FileInfo list \<Rightarrow> 'w \<Rightarrow> (error option \<times> 'w) option"
where
  "Ftp_Rm 0 lib f path w = None"
| "Ftp_Rm (Suc n) lib f path w =
     (if isDirectory path then
        (case Ftp_Ls lib f path w of
           ((entries, err), w1) \<Rightarrow>
             if transformError err \<noteq> None then Some (err, w1)
             else
               (case Ftp_Rm_entries n lib f path entries w1 of
                  None \<Rightarrow> None
                | Some (Some e, w2) \<Rightarrow> Some (Some e, w2)
                | Some (None, w2) \<Rightarrow>
                    (case ftp_Rmdir lib (client f) path w2 of
                       (err', w3) \<Rightarrow> Some (transformError err', w3))))
      else
        (case ftp_Delete lib (client f) path w of
           (err, w1) \<Rightarrow> Some (transformError err, w1)))"
| "Ftp_Rm_entries n lib f path [] w = Some (None, w)"
| "Ftp_Rm_entries n lib f path (entry # entries) w =
     (case Ftp_Rm n lib f (if IsDir entry then path @ Name entry @ ''/'' else path @ Name entry) w of
        None \<Rightarrow> None
      | Some (err, w1) \<Rightarrow>
          if transformError err \<noteq> None then Some (err, w1)
          else Ftp_Rm_entries n lib f path entries w1)"

subsection \<open>\<open>Ftp.Cat\<close>\<close>

text \<open>
  \<open>io.Pipe()\<close> of the Go standard library, as far as \<open>Ftp.Cat\<close> uses it: the bytes
  the writer has handed over, the error the read end was closed with
  (\<open>pr.CloseWithError\<close>) and whether the write end was closed (\<open>pw.Close()\<close>). A read
  on a pipe that is closed gives end of file when only the write end was closed, and
  the error \<open>io.ErrClosedPipe\<close> once the read end was closed.
\<close>

record Pipe =
  pipe_data :: string
  pipe_rerr :: "error option"
  pipe_wclosed :: bool

definition io_Pipe :: Pipe where
  "io_Pipe = \<lparr>pipe_data = [], pipe_rerr = None, pipe_wclosed = False\<rparr>"

definition CloseWithError :: "Pipe \<Rightarrow> error \<Rightarrow> Pipe" where
  "CloseWithError p e = (if pipe_rerr p = None then p\<lparr>pipe_rerr := Some e\<rparr> else p)"

definition pw_Close :: "Pipe \<Rightarrow> Pipe" where
  "pw_Close p = p\<lparr>pipe_wclosed := True\<rparr>"

text \<open>What a reader that has drained the data finds: \<open>None\<close> is end of file.\<close>

definition readCloseError :: "Pipe \<Rightarrow> error option" where
  "readCloseError p =
     (if pipe_rerr p = None \<and> pipe_wclosed p then None else Some ErrClosedPipe)"

text \<open>
  The goroutine that \<open>Ftp.Cat\<close> starts is a value: the closure over the adapter and
  the path. \<open>Ftp.Cat\<close> returns the pipe's read end, a nil error and this producer,
  which the scheduler runs later with \<open>run_producer\<close> (the body of the goroutine).
\<close>

datatype producer = Producer Ftp string

definition Ftp_Cat :: "Ftp \<Rightarrow> string \<Rightarrow> 'w \<Rightarrow> ((Pipe \<times> producer) \<times> error option) \<times> 'w" where
  "Ftp_Cat f path w = (((io_Pipe, Producer f path), None), w)"

fun run_producer :: "'w goftp \<Rightarrow> producer \<Rightarrow> Pipe \<Rightarrow> 'w \<Rightarrow> Pipe \<times> 'w" where
  "run_producer lib (Producer f path) pipe w =
     (case ftp_Retrieve lib (client f) path w of
        ((bytes, err), w1) \<Rightarrow>
          let p1 = pipe\<lparr>pipe_data := pipe_data pipe @ bytes\<rparr>;
              p2 = (if err \<noteq> None then CloseWithError p1 (AppError ''Problem'' 409) else p1)
          in (pw_Close p2, w1))"

section \<open>The SMB protocol library as a parameter\<close>

text \<open>
  The calls of \<open>net\<close> and \<open>go-smb2\<close> that the adapter makes, over the state of the
  world, as for the FTP library. Connections, sessions, shares and files are handles.
\<close>

type_synonym conn_h = nat
type_synonym file_h = nat

record NTLMInitiator =
  ntlm_User :: string
  ntlm_Password :: string
  ntlm_Domain :: string

record 'w smb2 =
  net_DialTimeout :: "string \<Rightarrow> string \<Rightarrow> nat \<Rightarrow> 'w \<Rightarrow> (error + conn_h) \<times> 'w"
  smb_Dial :: "NTLMInitiator \<Rightarrow> conn_h \<Rightarrow> 'w \<Rightarrow> (error + session_h) \<times> 'w"
  smb_ListSharenames :: "session_h \<Rightarrow> 'w \<Rightarrow> (error + string list) \<times> 'w"
  smb_Mount :: "session_h \<Rightarrow> string \<Rightarrow> 'w \<Rightarrow> (error + share_h) \<times> 'w"
  smb_Open :: "share_h \<Rightarrow> string \<Rightarrow> 'w \<Rightarrow> (error + file_h) \<times> 'w"
  smb_Create :: "share_h \<Rightarrow> string \<Rightarrow> 'w \<Rightarrow> (error + file_h) \<times> 'w"
  smb_Readdir :: "file_h \<Rightarrow> 'w \<Rightarrow> (FileInfo list \<times> error option) \<times> 'w"
  smb_Write :: "file_h \<Rightarrow> string \<Rightarrow> 'w \<Rightarrow> error option \<times> 'w"
  smb_FileClose :: "file_h \<Rightarrow> 'w \<Rightarrow> error option \<times> 'w"
  smb_Rename :: "share_h \<Rightarrow> string \<Rightarrow> string \<Rightarrow> 'w \<Rightarrow> error option \<times> 'w"

section \<open>The SMB adapter: operations\<close>

record 'w samba_state =
  SambaCache :: "Samba AppCache"
  smb_world :: 'w

definition IsPermission :: "error option \<Rightarrow> bool" where
  "IsPermission err = (case err of Some (OsError Permission _) \<Rightarrow> True | _ \<Rightarrow> False)"

definition IsNotExist :: "error option \<Rightarrow> bool" where
  "IsNotExist err = (case err of Some (OsError NotExist _) \<Rightarrow> True | _ \<Rightarrow> False)"

definition fromSambaErr :: "error option \<Rightarrow> error option" where
  "fromSambaErr err =
     (if IsPermission err then Some ErrPermissionDenied
      else if IsNotExist err then Some ErrNotFound
      else err)"

subsection \<open>\<open>Samba.Init\<close>\<close>

text \<open>The loop of lines 307 to 314 over the enumerated share names.\<close>

fun mount_shares ::
  "'w smb2 \<Rightarrow> session_h \<Rightarrow> string list \<Rightarrow> (string \<times> share_h) list \<Rightarrow> 'w
   \<Rightarrow> (string \<times> share_h) list \<times> 'w" where
  "mount_shares lib sess [] sh w = (sh, w)"
| "mount_shares lib sess (name # names) sh w =
     (if HasSuffix name ''$'' then mount_shares lib sess names sh w
      else (case smb_Mount lib sess name w of
              (Inr m, w1) \<Rightarrow> mount_shares lib sess names (AList.update name m sh) w1
            | (Inl err, w1) \<Rightarrow> mount_shares lib sess names sh w1))"

definition Samba_addr :: "params \<Rightarrow> string" where
  "Samba_addr params =
     param params ''host'' @ '':'' @
     (if param params ''port'' = [] then ''445'' else param params ''port'')"

definition Samba_initiator :: "params \<Rightarrow> NTLMInitiator" where
  "Samba_initiator params =
     \<lparr>ntlm_User = (if param params ''username'' = [] then ''Guest''
                   else param params ''username''),
      ntlm_Password = param params ''password'',
      ntlm_Domain = param params ''domain''\<rparr>"

definition Samba_Init ::
  "'w smb2 \<Rightarrow> params \<Rightarrow> 'w samba_state \<Rightarrow> (error + Samba) \<times> 'w samba_state" where
  "Samba_Init lib params st =
     (case cache_Get (SambaCache st) params of
        Some c \<Rightarrow> (Inr c, st)
      | None \<Rightarrow>
          (case net_DialTimeout lib ''tcp'' (Samba_addr params) 10 (smb_world st) of
             (Inl err, w1) \<Rightarrow> (Inl err, st\<lparr>smb_world := w1\<rparr>)
           | (Inr conn, w1) \<Rightarrow>
               (case smb_Dial lib (Samba_initiator params) conn w1 of
                  (Inl err, w2) \<Rightarrow> (Inl err, st\<lparr>smb_world := w2\<rparr>)
                | (Inr sess, w2) \<Rightarrow>
                    (case smb_ListSharenames lib sess w2 of
                       (Inl err, w3) \<Rightarrow> (Inl err, st\<lparr>smb_world := w3\<rparr>)
                     | (Inr names, w3) \<Rightarrow>
                         (case mount_shares lib sess names [] w3 of
                            (sh, w4) \<Rightarrow>
                              let s = \<lparr>session = sess, share = sh\<rparr>
                              in (Inr s,
                                  \<lparr>SambaCache = cache_Set (SambaCache st) params s,
                                   smb_world = w4\<rparr>))))))"

subsection \<open>\<open>Samba.Ls\<close>, \<open>Samba.Cat\<close>, \<open>Samba.Mv\<close>\<close>

text \<open>
  The host's \<open>File\<close> struct, as far as the source fills it, and the two kinds of
  \<open>os.FileInfo\<close> that \<open>Samba.Ls\<close> returns: a \<open>File\<close> it builds, or an entry the
  library lists.
\<close>

record File =
  FName :: string
  FType :: string

datatype os_FileInfo = AppFile File | LibFileInfo FileInfo

definition Samba_Ls ::
  "'w smb2 \<Rightarrow> Samba \<Rightarrow> string \<Rightarrow> 'w \<Rightarrow> (os_FileInfo list \<times> error option) \<times> 'w" where
  "Samba_Ls lib smb path w =
     (if path = ''/'' then
        ((map (\<lambda>key. AppFile \<lparr>FName = key, FType = ''directory''\<rparr>) (map fst (share smb)), None),
         w)
      else
        (case toSambaPath smb path of
           Inl err \<Rightarrow> (([], Some err), w)
         | Inr (sh, p) \<Rightarrow>
             (case smb_Open lib sh p w of
                (Inl err, w1) \<Rightarrow> (([], fromSambaErr (Some err)), w1)
              | (Inr dir, w1) \<Rightarrow>
                  (case smb_Readdir lib dir w1 of
                     ((fs, err), w2) \<Rightarrow>
                       (case smb_FileClose lib dir w2 of
                          (_, w3) \<Rightarrow> ((map LibFileInfo fs, fromSambaErr err), w3))))))"

definition Samba_Cat ::
  "'w smb2 \<Rightarrow> Samba \<Rightarrow> string \<Rightarrow> 'w \<Rightarrow> (file_h option \<times> error option) \<times> 'w" where
  "Samba_Cat lib smb path w =
     (case toSambaPath smb path of
        Inl err \<Rightarrow> ((None, Some err), w)
      | Inr (sh, p) \<Rightarrow>
          (case smb_Open lib sh p w of
             (Inl err, w1) \<Rightarrow> ((None, fromSambaErr (Some err)), w1)
           | (Inr f, w1) \<Rightarrow> ((Some f, fromSambaErr None), w1)))"

definition Samba_Mv :: "'w smb2 \<Rightarrow> Samba \<Rightarrow> string \<Rightarrow> string \<Rightarrow> 'w \<Rightarrow> error option \<times> 'w" where
  "Samba_Mv lib smb from to w =
     (case toSambaPath smb from of
        Inl err \<Rightarrow> (Some err, w)
      | Inr (fromShare, fromPath) \<Rightarrow>
          (case toSambaPath smb to of
             Inl err \<Rightarrow> (Some err, w)
           | Inr (toShare, toPath) \<Rightarrow>
               if fromShare \<noteq> toShare then (Some ErrNotImplemented, w)
               else (case smb_Rename lib fromShare fromPath toPath w of
                       (err, w1) \<Rightarrow> (fromSambaErr err, w1))))"

subsection \<open>\<open>Samba.Save\<close>, \<open>Samba.Touch\<close>\<close>

text \<open>
  \<open>io.Copy(f, content)\<close>: nothing is written when the source yields no byte; the bytes
  go to the file otherwise (in one write here), and a write error ends the copy. The
  result is nil at end of file, and the error of the source or of the write otherwise.
\<close>

fun io_Copy :: "'w smb2 \<Rightarrow> file_h \<Rightarrow> Reader \<Rightarrow> 'w \<Rightarrow> error option \<times> 'w" where
  "io_Copy lib f (Reader bs rerr) w =
     (if bs = [] then (rerr, w)
      else (case smb_Write lib f bs w of
              (Some e, w1) \<Rightarrow> (Some e, w1)
            | (None, w1) \<Rightarrow> (rerr, w1)))"

definition Samba_Save ::
  "'w smb2 \<Rightarrow> Samba \<Rightarrow> string \<Rightarrow> Reader \<Rightarrow> 'w \<Rightarrow> error option \<times> 'w" where
  "Samba_Save lib smb path content w =
     (case toSambaPath smb path of
        Inl err \<Rightarrow> (Some err, w)
      | Inr (sh, p) \<Rightarrow>
          (case smb_Create lib sh p w of
             (Inl err, w1) \<Rightarrow> (fromSambaErr (Some err), w1)
           | (Inr f, w1) \<Rightarrow>
               (case io_Copy lib f content w1 of
                  (Some err, w2) \<Rightarrow>
                    (case smb_FileClose lib f w2 of (_, w3) \<Rightarrow> (fromSambaErr (Some err), w3))
                | (None, w2) \<Rightarrow> smb_FileClose lib f w2)))"

definition Samba_Touch :: "'w smb2 \<Rightarrow> Samba \<Rightarrow> string \<Rightarrow> 'w \<Rightarrow> error option \<times> 'w" where
  "Samba_Touch lib smb path w =
     (case toSambaPath smb path of
        Inl err \<Rightarrow> (Some err, w)
      | Inr (sh, p) \<Rightarrow>
          (case smb_Create lib sh p w of
             (Inl err, w1) \<Rightarrow> (fromSambaErr (Some err), w1)
           | (Inr f, w1) \<Rightarrow>
               (case smb_FileClose lib f w1 of (err, w2) \<Rightarrow> (fromSambaErr err, w2))))"

section \<open>Scripted libraries for concrete runs\<close>

text \<open>
  Two instances of the library records, to run the adapters on concrete inputs. The
  world is the list of the calls made so far; a call answers with the error the
  script gives for its path or address (none: success) and a fresh handle.
\<close>

datatype ftp_event =
    EvDial Config string
  | EvReadDir client_h string
  | EvClose client_h
  | EvDelete client_h string
  | EvRmdir client_h string
  | EvStore client_h string Reader
  | EvRetrieve client_h string

definition script_ftp ::
  "(string \<Rightarrow> FileInfo list) \<Rightarrow> (string \<Rightarrow> error option) \<Rightarrow> ftp_event list goftp" where
  "script_ftp listing errs =
     \<lparr>ftp_DialConfig = (\<lambda>cfg addr w.
        ((case errs addr of Some e \<Rightarrow> Inl e | None \<Rightarrow> Inr (length w)), w @ [EvDial cfg addr])),
      ftp_ReadDir = (\<lambda>c p w. ((listing p, errs p), w @ [EvReadDir c p])),
      ftp_Close = (\<lambda>c w. (None, w @ [EvClose c])),
      ftp_Delete = (\<lambda>c p w. (errs p, w @ [EvDelete c p])),
      ftp_Rmdir = (\<lambda>c p w. (errs p, w @ [EvRmdir c p])),
      ftp_Store = (\<lambda>c p r w. (errs p, w @ [EvStore c p r])),
      ftp_Retrieve = (\<lambda>c p w. (([], errs p), w @ [EvRetrieve c p]))\<rparr>"

datatype smb_event =
    EvDialTimeout string string nat
  | EvSmbDial NTLMInitiator conn_h
  | EvListSharenames session_h
  | EvMount session_h string
  | EvOpen share_h string
  | EvCreate share_h string
  | EvReaddir file_h
  | EvWrite file_h string
  | EvFileClose file_h
  | EvRename share_h string string

definition script_smb ::
  "string list \<Rightarrow> (string \<Rightarrow> error option) \<Rightarrow> error option \<Rightarrow> smb_event list smb2" where
  "script_smb names errs close_err =
     \<lparr>net_DialTimeout = (\<lambda>network addr t w.
        ((case errs addr of Some e \<Rightarrow> Inl e | None \<Rightarrow> Inr (length w)),
         w @ [EvDialTimeout network addr t])),
      smb_Dial = (\<lambda>ini conn w. (Inr (length w), w @ [EvSmbDial ini conn])),
      smb_ListSharenames = (\<lambda>sess w. (Inr names, w @ [EvListSharenames sess])),
      smb_Mount = (\<lambda>sess name w.
        ((case errs name of Some e \<Rightarrow> Inl e | None \<Rightarrow> Inr (length w)), w @ [EvMount sess name])),
      smb_Open = (\<lambda>sh p w.
        ((case errs p of Some e \<Rightarrow> Inl e | None \<Rightarrow> Inr (length w)), w @ [EvOpen sh p])),
      smb_Create = (\<lambda>sh p w.
        ((case errs p of Some e \<Rightarrow> Inl e | None \<Rightarrow> Inr (length w)), w @ [EvCreate sh p])),
      smb_Readdir = (\<lambda>f w. (([], None), w @ [EvReaddir f])),
      smb_Write = (\<lambda>f bs w. (None, w @ [EvWrite f bs])),
      smb_FileClose = (\<lambda>f w. (close_err, w @ [EvFileClose f])),
      smb_Rename = (\<lambda>sh p q w. (errs p, w @ [EvRename sh p q]))\<rparr>"

section \<open>A file-system server for the recursive delete\<close>

text \<open>
  A third instance of the FTP library record: a server that keeps a tree of files and
  directories, so that what \<open>Ftp.Rm\<close> leaves behind can be stated. A directory is the
  association list of its entries. The server reads a path as the list of its non-empty
  segments. \<open>ReadDir\<close> lists a directory in the order of its entries; \<open>Delete\<close> removes a
  file; \<open>Rmdir\<close> removes a directory that is empty and is not the root; each fails with
  code 550 otherwise. The world is the tree and the list of the calls made. The other
  calls are recorded and leave the tree as it is.
\<close>

datatype node = FileNode | DirNode "(string \<times> node) list"

definition is_dir :: "node \<Rightarrow> bool" where
  "is_dir n = (case n of FileNode \<Rightarrow> False | DirNode es \<Rightarrow> True)"

definition segments :: "string \<Rightarrow> string list" where
  "segments p = filter (\<lambda>s. s \<noteq> []) (Split p CHR ''/'')"

fun node_at :: "node \<Rightarrow> string list \<Rightarrow> node option" where
  "node_at n [] = Some n"
| "node_at n (s # ss) =
     (case n of
        FileNode \<Rightarrow> None
      | DirNode es \<Rightarrow> (case map_of es s of None \<Rightarrow> None | Some c \<Rightarrow> node_at c ss))"

fun put_node :: "node \<Rightarrow> string list \<Rightarrow> node \<Rightarrow> node" where
  "put_node n [] t = t"
| "put_node n (s # ss) t =
     (case n of
        FileNode \<Rightarrow> n
      | DirNode es \<Rightarrow>
          (case map_of es s of
             None \<Rightarrow> n
           | Some c \<Rightarrow> DirNode (AList.update s (put_node c ss t) es)))"

fun unlink :: "node \<Rightarrow> string list \<Rightarrow> node" where
  "unlink n [] = n"
| "unlink n (s # ss) =
     (case n of
        FileNode \<Rightarrow> n
      | DirNode es \<Rightarrow>
          (case map_of es s of
             None \<Rightarrow> n
           | Some c \<Rightarrow>
               DirNode (if ss = [] then AList.delete s es
                        else AList.update s (unlink c ss) es)))"

definition valid_name :: "string \<Rightarrow> bool" where
  "valid_name nm = (nm \<noteq> [] \<and> CHR ''/'' \<notin> set nm)"

text \<open>
  Entry names as a server gives them (not empty, no slash), distinct in each directory;
  the depth of a tree; and the calls a recursive delete of a tree is expected to make:
  for a directory the listing, then the calls for each entry in order (a directory entry
  under its name with a slash appended), then the removal of the directory.
\<close>

fun wf_node :: "node \<Rightarrow> bool" where
  "wf_node FileNode = True"
| "wf_node (DirNode es) =
     (distinct (map fst es) \<and> (\<forall>e \<in> set es. valid_name (fst e) \<and> wf_node (snd e)))"

fun height :: "node \<Rightarrow> nat" where
  "height FileNode = 0"
| "height (DirNode es) = Suc (foldr (\<lambda>e m. max (height (snd e)) m) es 0)"

fun plan :: "client_h \<Rightarrow> string \<Rightarrow> node \<Rightarrow> ftp_event list" where
  "plan c p FileNode = [EvDelete c p]"
| "plan c p (DirNode es) =
     EvReadDir c p #
     concat (map (\<lambda>e. plan c (if is_dir (snd e) then p @ fst e @ ''/'' else p @ fst e) (snd e)) es)
     @ [EvRmdir c p]"

record tree_world =
  tw_root :: node
  tw_trace :: "ftp_event list"

definition tree_ftp :: "tree_world goftp" where
  "tree_ftp =
     \<lparr>ftp_DialConfig = (\<lambda>cfg addr w.
        (Inr (length (tw_trace w)), w\<lparr>tw_trace := tw_trace w @ [EvDial cfg addr]\<rparr>)),
      ftp_ReadDir = (\<lambda>c p w.
        ((case node_at (tw_root w) (segments p) of
            Some (DirNode es) \<Rightarrow> (map (\<lambda>e. \<lparr>Name = fst e, IsDir = is_dir (snd e)\<rparr>) es, None)
          | _ \<Rightarrow> ([], Some (GoftpError 550 ''No such directory''))),
         w\<lparr>tw_trace := tw_trace w @ [EvReadDir c p]\<rparr>)),
      ftp_Close = (\<lambda>c w. (None, w\<lparr>tw_trace := tw_trace w @ [EvClose c]\<rparr>)),
      ftp_Delete = (\<lambda>c p w.
        (if segments p \<noteq> [] \<and> node_at (tw_root w) (segments p) = Some FileNode
         then (None, \<lparr>tw_root = unlink (tw_root w) (segments p),
                      tw_trace = tw_trace w @ [EvDelete c p]\<rparr>)
         else (Some (GoftpError 550 ''No such file''),
               w\<lparr>tw_trace := tw_trace w @ [EvDelete c p]\<rparr>))),
      ftp_Rmdir = (\<lambda>c p w.
        (if segments p \<noteq> [] \<and> node_at (tw_root w) (segments p) = Some (DirNode [])
         then (None, \<lparr>tw_root = unlink (tw_root w) (segments p),
                      tw_trace = tw_trace w @ [EvRmdir c p]\<rparr>)
         else (Some (GoftpError 550 ''Directory missing or not empty''),
               w\<lparr>tw_trace := tw_trace w @ [EvRmdir c p]\<rparr>))),
      ftp_Store = (\<lambda>c p r w. (None, w\<lparr>tw_trace := tw_trace w @ [EvStore c p r]\<rparr>)),
      ftp_Retrieve = (\<lambda>c p w. (([], None), w\<lparr>tw_trace := tw_trace w @ [EvRetrieve c p]\<rparr>))\<rparr>"

section \<open>Path resolution\<close>

lemma Split_not_Nil: "Split s sep \<noteq> []"
  by (induction s) (auto split: list.splits)

lemma toSambaPath_never_NotAllowed: "toSambaPath smb path \<noteq> Inl ErrNotAllowed"
  by (simp add: toSambaPath_def Let_def Split_not_Nil split: option.splits)

lemma toSambaPath_unknown_share:
  "map_of (share smb) (hd (Split (Trim path ''/'') CHR ''/'')) = None
   \<Longrightarrow> toSambaPath smb path = Inl ErrNotFound"
  by (simp add: toSambaPath_def Let_def Split_not_Nil)

lemma toSambaPath_shareA:
  "map_of (share smb) ''shareA'' = Some sh
   \<Longrightarrow> toSambaPath smb ''shareA/sub/file.txt'' = Inr (sh, ''sub'' @ backslash @ ''file.txt'')"
  by (simp add: toSambaPath_def Let_def Trim_def TrimLeft_def TrimRight_def backslash_def)

text \<open>
  C2. Resolving the empty path: the claim says the not-allowed error; the code returns
  the not-found error, because \<open>strings.Split\<close> of the empty string is one empty field,
  so the length test before the share lookup never fires. Here with \<open>shareA\<close> mounted.
\<close>

theorem toSambaPath_empty_path:
  "toSambaPath \<lparr>session = 0, share = [(''shareA'', 1)]\<rparr> '''' = Inl ErrNotFound"
  by (simp add: toSambaPath_def Let_def Trim_def TrimLeft_def TrimRight_def)

section \<open>Initialisation of the FTP adapter\<close>

lemma Atoi_Nil: "Atoi [] = None" by (simp add: Atoi_def)

lemma defaults_conn: "param (Ftp_defaults params) ''conn'' = param params ''conn''"
  by (simp add: Ftp_defaults_def param_def Let_def)

lemma fill_keeps:
  "param p k \<noteq> [] \<Longrightarrow> (if c \<and> param p k' = [] then p(k' \<mapsto> v) else p) k = p k"
  by (auto simp: param_def)

lemma fill_keeps_param:
  "param p k \<noteq> [] \<Longrightarrow> param (if c \<and> param p k' = [] then p(k' \<mapsto> v) else p) k = param p k"
  by (auto simp: param_def)

lemma Ftp_defaults_keeps:
  assumes ne: "param params k \<noteq> []"
  shows "Ftp_defaults params k = params k"
proof -
  define p1 where "p1 = (if True \<and> param params ''hostname'' = [] then params(''hostname'' \<mapsto> ''localhost'') else params)"
  define p2 where "p2 = (if True \<and> param p1 ''port'' = [] then p1(''port'' \<mapsto> ''21'') else p1)"
  define p3 where "p3 = (if True \<and> param p2 ''username'' = [] then p2(''username'' \<mapsto> ''anonymous'') else p2)"
  have d: "Ftp_defaults params =
      (if param p3 ''username'' = ''anonymous'' \<and> param p3 ''password'' = []
       then p3(''password'' \<mapsto> ''anonymous'') else p3)"
    by (simp only: Ftp_defaults_def Let_def p1_def p2_def p3_def simp_thms)
  have e1: "p1 k = params k" and n1: "param p1 k \<noteq> []"
    unfolding p1_def using ne by (simp_all only: fill_keeps fill_keeps_param not_False_eq_True)
  have e2: "p2 k = p1 k" and n2: "param p2 k \<noteq> []"
    unfolding p2_def using n1 by (simp_all only: fill_keeps fill_keeps_param not_False_eq_True)
  have e3: "p3 k = p2 k" and n3: "param p3 k \<noteq> []"
    unfolding p3_def using n2 by (simp_all only: fill_keeps fill_keeps_param not_False_eq_True)
  have e4: "Ftp_defaults params k = p3 k"
    unfolding d using n3 by (rule fill_keeps)
  show ?thesis
    by (simp only: e4 e3 e2 e1)
qed

lemma Ftp_Init_miss:
  "cache_Get (FtpCache st) params = None \<Longrightarrow>
   ftp_DialConfig lib (Ftp_config (Ftp_defaults params)) (Ftp_addr (Ftp_defaults params)) (ftp_world st) = (Inl e, w1) \<Longrightarrow>
   Ftp_Init lib params st = (Inl e, Ftp_defaults params, st\<lparr>ftp_world := w1\<rparr>)"
  by (simp add: Ftp_Init_def Let_def)

lemma Ftp_defaults_empty: "Ftp_defaults Map.empty = [''hostname'' \<mapsto> ''localhost'', ''port'' \<mapsto> ''21'', ''username'' \<mapsto> ''anonymous'', ''password'' \<mapsto> ''anonymous'']"
  by (simp add: Ftp_defaults_def param_def)

lemma Ftp_config_empty: "Ftp_config (Ftp_defaults Map.empty) = \<lparr>User = ''anonymous'', Password = ''anonymous'', ConnectionsPerHost = 5, Timeout = 10\<rparr>"
  by (simp add: Ftp_defaults_def param_def Ftp_config_def Ftp_conn_def)

lemma Ftp_addr_empty: "Ftp_addr (Ftp_defaults Map.empty) = ''localhost:21''"
  by (simp add: Ftp_defaults_def param_def Ftp_addr_def TrimPrefix_def HasPrefix_def)

lemma Ftp_Init_hit:
  "cache_Get (FtpCache st) params = Some d \<Longrightarrow> Ftp_Init lib params st = (Inr d, params, st)"
  by (simp add: Ftp_Init_def)

lemma Ftp_Init_probe_fails:
  assumes "cache_Get (FtpCache st) params = None"
    and "ftp_DialConfig lib (Ftp_config (Ftp_defaults params)) (Ftp_addr (Ftp_defaults params))
           (ftp_world st) = (Inr cl, w1)"
    and "ftp_ReadDir lib cl ''/'' w1 = ((es, Some e), w2)"
  shows "Ftp_Init lib params st =
     (Inl ErrAuthenticationFailed, Ftp_defaults params,
      st\<lparr>ftp_world := snd (ftp_Close lib cl w2)\<rparr>)"
  using assms by (simp add: Ftp_Init_def Let_def split: prod.splits)

lemma Ftp_Init_failure_cache:
  "Ftp_Init lib params st = (Inl err, p', st') \<Longrightarrow> FtpCache st' = FtpCache st"
  by (auto simp: Ftp_Init_def Let_def split: option.splits prod.splits sum.splits)

text \<open>
  C6. Initialising the FTP adapter with the empty parameter mapping fills in host
  \<open>localhost\<close>, port \<open>21\<close>, user name and password \<open>anonymous\<close>, and the
  connection count 5, before the connection is dialed: the dial is made with this
  configuration at \<open>localhost:21\<close>, and its failure is what \<open>Ftp.Init\<close> returns, with the
  filled map left to the caller. A parameter that is present (not the empty string, the
  only absence the source can see) keeps its value, and a \<open>conn\<close> that \<open>strconv.Atoi\<close>
  reads as a positive integer is the connection count.
\<close>

theorem Ftp_Init_default_parameters:
  "Ftp_defaults Map.empty =
     [''hostname'' \<mapsto> ''localhost'', ''port'' \<mapsto> ''21'', ''username'' \<mapsto> ''anonymous'', ''password'' \<mapsto> ''anonymous'']
   \<and> Ftp_config (Ftp_defaults Map.empty) =
     \<lparr>User = ''anonymous'', Password = ''anonymous'', ConnectionsPerHost = 5, Timeout = 10\<rparr>
   \<and> Ftp_addr (Ftp_defaults Map.empty) = ''localhost:21''
   \<and> (cache_Get (FtpCache st) Map.empty = None \<and>
        ftp_DialConfig lib
          \<lparr>User = ''anonymous'', Password = ''anonymous'', ConnectionsPerHost = 5, Timeout = 10\<rparr>
          ''localhost:21'' (ftp_world st) = (Inl e, w1)
      \<longrightarrow> Ftp_Init lib Map.empty st =
            (Inl e,
             [''hostname'' \<mapsto> ''localhost'', ''port'' \<mapsto> ''21'', ''username'' \<mapsto> ''anonymous'', ''password'' \<mapsto> ''anonymous''],
             st\<lparr>ftp_world := w1\<rparr>))
   \<and> (param params k \<noteq> [] \<longrightarrow> Ftp_defaults params k = params k)
   \<and> (Atoi (param params ''conn'') = Some i \<and> 0 < i
      \<longrightarrow> ConnectionsPerHost (Ftp_config (Ftp_defaults params)) = i)"
proof -
  have dial: "cache_Get (FtpCache st) Map.empty = None \<and>
        ftp_DialConfig lib
          \<lparr>User = ''anonymous'', Password = ''anonymous'', ConnectionsPerHost = 5, Timeout = 10\<rparr>
          ''localhost:21'' (ftp_world st) = (Inl e, w1)
      \<longrightarrow> Ftp_Init lib Map.empty st =
            (Inl e,
             [''hostname'' \<mapsto> ''localhost'', ''port'' \<mapsto> ''21'', ''username'' \<mapsto> ''anonymous'', ''password'' \<mapsto> ''anonymous''],
             st\<lparr>ftp_world := w1\<rparr>)"
  proof (intro impI, elim conjE)
    assume m: "cache_Get (FtpCache st) Map.empty = None"
      and d: "ftp_DialConfig lib
          \<lparr>User = ''anonymous'', Password = ''anonymous'', ConnectionsPerHost = 5, Timeout = 10\<rparr>
          ''localhost:21'' (ftp_world st) = (Inl e, w1)"
    from d have d': "ftp_DialConfig lib (Ftp_config (Ftp_defaults Map.empty))
        (Ftp_addr (Ftp_defaults Map.empty)) (ftp_world st) = (Inl e, w1)"
      by (simp only: Ftp_config_empty Ftp_addr_empty)
    show "Ftp_Init lib Map.empty st =
            (Inl e,
             [''hostname'' \<mapsto> ''localhost'', ''port'' \<mapsto> ''21'', ''username'' \<mapsto> ''anonymous'', ''password'' \<mapsto> ''anonymous''],
             st\<lparr>ftp_world := w1\<rparr>)"
      using Ftp_Init_miss [OF m d'] by (simp only: Ftp_defaults_empty)
  qed
  have conn: "Atoi (param params ''conn'') = Some i \<and> 0 < i
      \<longrightarrow> ConnectionsPerHost (Ftp_config (Ftp_defaults params)) = i"
    by (auto simp: Ftp_config_def Ftp_conn_def defaults_conn Atoi_Nil)
  have keep: "param params k \<noteq> [] \<longrightarrow> Ftp_defaults params k = params k"
    using Ftp_defaults_keeps [of params k] by (rule impI)
  show ?thesis
    by (rule conjI [OF Ftp_defaults_empty conjI [OF Ftp_config_empty conjI [OF Ftp_addr_empty
          conjI [OF dial conjI [OF keep conn]]]]])
qed

theorem Ftp_Init_default_parameters_witness:
  "Ftp_Init (script_ftp (\<lambda>p. []) (\<lambda>p. Some (OtherError ''connection refused''))) Map.empty
     \<lparr>FtpCache = Map.empty, ftp_world = []\<rparr> =
     (Inl (OtherError ''connection refused''),
      [''hostname'' \<mapsto> ''localhost'', ''port'' \<mapsto> ''21'', ''username'' \<mapsto> ''anonymous'', ''password'' \<mapsto> ''anonymous''],
      \<lparr>FtpCache = Map.empty,
       ftp_world = [EvDial \<lparr>User = ''anonymous'', Password = ''anonymous'', ConnectionsPerHost = 5, Timeout = 10\<rparr> ''localhost:21'']\<rparr>)
   \<and> param [''hostname'' \<mapsto> ''example.org'', ''conn'' \<mapsto> ''8''] ''hostname'' \<noteq> []
   \<and> Ftp_defaults [''hostname'' \<mapsto> ''example.org'', ''conn'' \<mapsto> ''8''] ''hostname'' = Some ''example.org''
   \<and> Atoi (param [''hostname'' \<mapsto> ''example.org'', ''conn'' \<mapsto> ''8''] ''conn'') = Some 8
   \<and> ConnectionsPerHost (Ftp_config (Ftp_defaults [''hostname'' \<mapsto> ''example.org'', ''conn'' \<mapsto> ''8''])) = 8"
proof -
  let ?lib = "script_ftp (\<lambda>p. []) (\<lambda>p. Some (OtherError ''connection refused''))"
  let ?st = "\<lparr>FtpCache = Map.empty, ftp_world = ([] :: ftp_event list)\<rparr>"
  let ?ps = "[''hostname'' \<mapsto> ''example.org'', ''conn'' \<mapsto> ''8'']"
  have miss: "cache_Get (FtpCache ?st) Map.empty = None"
    by (simp add: cache_Get_def)
  have dial: "ftp_DialConfig ?lib
      \<lparr>User = ''anonymous'', Password = ''anonymous'', ConnectionsPerHost = 5, Timeout = 10\<rparr>
      ''localhost:21'' (ftp_world ?st) =
      (Inl (OtherError ''connection refused''),
       [EvDial \<lparr>User = ''anonymous'', Password = ''anonymous'', ConnectionsPerHost = 5, Timeout = 10\<rparr> ''localhost:21''])"
    by (simp add: script_ftp_def)
  have present: "param ?ps ''hostname'' \<noteq> []"
    by (simp add: param_def)
  have conn: "Atoi (param ?ps ''conn'') = Some 8"
    by (simp add: param_def Atoi_def digit_val_def)
  note inst = Ftp_Init_default_parameters [of ?st ?lib "OtherError ''connection refused''"
      "[EvDial \<lparr>User = ''anonymous'', Password = ''anonymous'', ConnectionsPerHost = 5, Timeout = 10\<rparr> ''localhost:21'']"
      ?ps "''hostname''" 8]
  note c4 = inst [THEN conjunct2, THEN conjunct2, THEN conjunct2]
  have a: "Ftp_Init ?lib Map.empty ?st =
     (Inl (OtherError ''connection refused''),
      [''hostname'' \<mapsto> ''localhost'', ''port'' \<mapsto> ''21'', ''username'' \<mapsto> ''anonymous'', ''password'' \<mapsto> ''anonymous''],
      ?st\<lparr>ftp_world := [EvDial \<lparr>User = ''anonymous'', Password = ''anonymous'', ConnectionsPerHost = 5, Timeout = 10\<rparr> ''localhost:21'']\<rparr>)"
    by (rule c4 [THEN conjunct1, THEN mp, OF conjI [OF miss dial]])
  have b: "Ftp_defaults ?ps ''hostname'' = ?ps ''hostname''"
    by (rule c4 [THEN conjunct2, THEN conjunct1, THEN mp, OF present])
  have eight: "(0::int) < 8"
    by simp
  have c: "ConnectionsPerHost (Ftp_config (Ftp_defaults ?ps)) = 8"
    by (rule c4 [THEN conjunct2, THEN conjunct2, THEN mp, OF conjI [OF conn eight]])
  have a': "Ftp_Init ?lib Map.empty ?st =
     (Inl (OtherError ''connection refused''),
      [''hostname'' \<mapsto> ''localhost'', ''port'' \<mapsto> ''21'', ''username'' \<mapsto> ''anonymous'', ''password'' \<mapsto> ''anonymous''],
      \<lparr>FtpCache = Map.empty, ftp_world = [EvDial \<lparr>User = ''anonymous'', Password = ''anonymous'', ConnectionsPerHost = 5, Timeout = 10\<rparr> ''localhost:21'']\<rparr>)"
    using a by simp
  have b': "Ftp_defaults ?ps ''hostname'' = Some ''example.org''"
    using b by simp
  show ?thesis
    by (rule conjI [OF a' conjI [OF present conjI [OF b' conjI [OF conn c]]]])
qed


text \<open>
  C5. When the dial succeeds and the verification probe (listing \<open>/\<close>) fails,
  \<open>Ftp.Init\<close> closes the client and returns the authentication-failed error, whatever
  the probe's error was; and whenever \<open>Ftp.Init\<close> returns an error, the cache is the
  one it started with.
\<close>

theorem Ftp_Init_verification_probe:
  "(cache_Get (FtpCache st) params = None \<and>
    ftp_DialConfig lib (Ftp_config (Ftp_defaults params)) (Ftp_addr (Ftp_defaults params))
      (ftp_world st) = (Inr cl, w1) \<and>
    ftp_ReadDir lib cl ''/'' w1 = ((es, Some e), w2)
    \<longrightarrow> Ftp_Init lib params st =
          (Inl ErrAuthenticationFailed, Ftp_defaults params,
           st\<lparr>ftp_world := snd (ftp_Close lib cl w2)\<rparr>))
   \<and> (Ftp_Init lib params st = (Inl err, p', st') \<longrightarrow> FtpCache st' = FtpCache st)"
  using Ftp_Init_probe_fails [of st params lib cl w1 es e w2]
    Ftp_Init_failure_cache [of lib params st err p' st']
  by blast

theorem Ftp_Init_verification_probe_witness:
  "Ftp_Init
     (script_ftp (\<lambda>p. [])
        (\<lambda>p. if p = ''/'' then Some (GoftpError 530 ''Not logged in'') else None))
     Map.empty \<lparr>FtpCache = Map.empty, ftp_world = []\<rparr> =
   (Inl ErrAuthenticationFailed, Ftp_defaults Map.empty,
    \<lparr>FtpCache = Map.empty,
     ftp_world = [EvDial (Ftp_config (Ftp_defaults Map.empty)) ''localhost:21'',
                  EvReadDir 0 ''/'', EvClose 0]\<rparr>)"
proof -
  let ?lib = "script_ftp (\<lambda>p. [])
        (\<lambda>p. if p = ''/'' then Some (GoftpError 530 ''Not logged in'') else None)"
  let ?st = "\<lparr>FtpCache = Map.empty, ftp_world = ([] :: ftp_event list)\<rparr>"
  let ?dial = "EvDial (Ftp_config (Ftp_defaults Map.empty)) ''localhost:21''"
  have miss: "cache_Get (FtpCache ?st) Map.empty = None"
    by (simp add: cache_Get_def)
  have dial: "ftp_DialConfig ?lib (Ftp_config (Ftp_defaults Map.empty))
      (Ftp_addr (Ftp_defaults Map.empty)) (ftp_world ?st) = (Inr 0, [?dial])"
    by (simp add: Ftp_addr_empty script_ftp_def)
  have probe: "ftp_ReadDir ?lib 0 ''/'' [?dial] =
      (([], Some (GoftpError 530 ''Not logged in'')), [?dial, EvReadDir 0 ''/''])"
    by (simp add: script_ftp_def)
  have closed: "snd (ftp_Close ?lib 0 [?dial, EvReadDir 0 ''/'']) =
      [?dial, EvReadDir 0 ''/'', EvClose 0]"
    by (simp add: script_ftp_def)
  have "Ftp_Init ?lib Map.empty ?st =
      (Inl ErrAuthenticationFailed, Ftp_defaults Map.empty,
       ?st\<lparr>ftp_world := snd (ftp_Close ?lib 0 [?dial, EvReadDir 0 ''/''])\<rparr>)"
    by (rule Ftp_Init_verification_probe [THEN conjunct1, THEN mp,
          OF conjI [OF miss conjI [OF dial probe]]])
  then show ?thesis
    by (simp only: closed) simp
qed

section \<open>Rename in the SMB adapter\<close>

text \<open>
  C7. When the two paths resolve to different shares, \<open>Samba.Mv\<close> returns the
  not-implemented error and the world is the one it started with: no call was made on
  either share. When they resolve to the same share, the result is that share's
  \<open>Rename\<close> of the two native paths, with its error normalised.
\<close>

theorem Samba_Mv_shares:
  "toSambaPath smb from = Inr (fromShare, fromPath) \<Longrightarrow>
   toSambaPath smb to = Inr (toShare, toPath) \<Longrightarrow>
   Samba_Mv lib smb from to w =
     (if fromShare \<noteq> toShare then (Some ErrNotImplemented, w)
      else (fromSambaErr (fst (smb_Rename lib fromShare fromPath toPath w)),
            snd (smb_Rename lib fromShare fromPath toPath w)))"
  by (simp add: Samba_Mv_def split: prod.splits)

lemma resolve_a: "toSambaPath \<lparr>session = 0, share = [(''a'', 1), (''b'', 2)]\<rparr> ''a/x.txt'' = Inr (1, ''x.txt'')"
  by (simp add: toSambaPath_def Let_def Trim_def TrimLeft_def TrimRight_def backslash_def)

lemma resolve_b: "toSambaPath \<lparr>session = 0, share = [(''a'', 1), (''b'', 2)]\<rparr> ''b/y.txt'' = Inr (2, ''y.txt'')"
  by (simp add: toSambaPath_def Let_def Trim_def TrimLeft_def TrimRight_def backslash_def)

lemma resolve_a2: "toSambaPath \<lparr>session = 0, share = [(''a'', 1), (''b'', 2)]\<rparr> ''a/y.txt'' = Inr (1, ''y.txt'')"
  by (simp add: toSambaPath_def Let_def Trim_def TrimLeft_def TrimRight_def backslash_def)

theorem Samba_Mv_shares_witness:
  "Samba_Mv (script_smb [] (\<lambda>p. None) None) \<lparr>session = 0, share = [(''a'', 1), (''b'', 2)]\<rparr>
     ''a/x.txt'' ''b/y.txt'' [] = (Some ErrNotImplemented, [])
   \<and> Samba_Mv (script_smb [] (\<lambda>p. None) None) \<lparr>session = 0, share = [(''a'', 1), (''b'', 2)]\<rparr>
     ''a/x.txt'' ''a/y.txt'' [] = (None, [EvRename 1 ''x.txt'' ''y.txt''])"
  using Samba_Mv_shares [OF resolve_a resolve_b, of "script_smb [] (\<lambda>p. None) None" "[]"]
    Samba_Mv_shares [OF resolve_a resolve_a2, of "script_smb [] (\<lambda>p. None) None" "[]"]
  by (simp add: script_smb_def fromSambaErr_def IsPermission_def IsNotExist_def)

section \<open>Reuse of cached adapters\<close>

lemma Samba_Init_hit:
  "cache_Get (SambaCache st) params = Some c \<Longrightarrow> Samba_Init lib params st = (Inr c, st)"
  by (simp add: Samba_Init_def)

lemma Samba_Init_caches:
  "Samba_Init lib params st = (Inr s, st1) \<Longrightarrow> cache_Get (SambaCache st1) params = Some s"
  by (auto simp: Samba_Init_def cache_Get_def cache_Set_def Let_def
      split: option.splits prod.splits sum.splits)

lemma Samba_Init_second_call:
  "Samba_Init lib params st = (Inr s, st1) \<Longrightarrow> Samba_Init lib params st1 = (Inr s, st1)"
  by (rule Samba_Init_hit [OF Samba_Init_caches])

lemma Ftp_Init_caches:
  "Ftp_Init lib params st = (Inr d, p', st1) \<Longrightarrow> cache_Get (FtpCache st1) p' = Some d"
  by (auto simp: Ftp_Init_def cache_Get_def cache_Set_def Let_def
      split: option.splits prod.splits sum.splits)

lemma Ftp_Init_second_call_filled:
  "Ftp_Init lib params st = (Inr d, p', st1) \<Longrightarrow> Ftp_Init lib p' st1 = (Inr d, p', st1)"
  by (rule Ftp_Init_hit [OF Ftp_Init_caches])

lemma Ftp_Init_setup_only_on_miss:
  "cache_Get (FtpCache st) params = Some d \<Longrightarrow> snd (snd (Ftp_Init lib params st)) = st"
  by (simp add: Ftp_Init_hit)

lemma filled_not_empty:
  "[''hostname'' \<mapsto> ''localhost'', ''port'' \<mapsto> ''21'', ''username'' \<mapsto> ''anonymous'', ''password'' \<mapsto> ''anonymous''] \<noteq> Map.empty"
  by simp

text \<open>
  C1. A second \<open>Init\<close> with parameters equal in content returns the cached adapter
  and dials nothing. This holds for \<open>Samba.Init\<close> (\<open>Samba_Init_second_call\<close>) and for
  \<open>Ftp.Init\<close> called again with the map the first call filled
  (\<open>Ftp_Init_second_call_filled\<close>). It fails for \<open>Ftp.Init\<close> when a default was filled
  in: the lookup of line 34 is made with the parameters as given, the insertion of line
  76 with the parameters after the defaults were written. Two calls with the empty
  mapping, on a server that accepts every connection: the second call misses the cache
  and dials again, and returns a new adapter (client 2, not client 0).
\<close>

theorem Ftp_Init_twice_empty_parameters:
  "Ftp_Init (script_ftp (\<lambda>p. []) (\<lambda>p. None)) Map.empty
     \<lparr>FtpCache = Map.empty, ftp_world = []\<rparr> =
     (Inr \<lparr>client = 0\<rparr>, Ftp_defaults Map.empty,
      \<lparr>FtpCache = [Ftp_defaults Map.empty \<mapsto> \<lparr>client = 0\<rparr>],
       ftp_world = [EvDial (Ftp_config (Ftp_defaults Map.empty)) ''localhost:21'',
                    EvReadDir 0 ''/'']\<rparr>)
   \<and> Ftp_Init (script_ftp (\<lambda>p. []) (\<lambda>p. None)) Map.empty
       \<lparr>FtpCache = [Ftp_defaults Map.empty \<mapsto> \<lparr>client = 0\<rparr>],
        ftp_world = [EvDial (Ftp_config (Ftp_defaults Map.empty)) ''localhost:21'',
                     EvReadDir 0 ''/'']\<rparr> =
     (Inr \<lparr>client = 2\<rparr>, Ftp_defaults Map.empty,
      \<lparr>FtpCache = [Ftp_defaults Map.empty \<mapsto> \<lparr>client = 2\<rparr>],
       ftp_world = [EvDial (Ftp_config (Ftp_defaults Map.empty)) ''localhost:21'',
                    EvReadDir 0 ''/'',
                    EvDial (Ftp_config (Ftp_defaults Map.empty)) ''localhost:21'',
                    EvReadDir 2 ''/'']\<rparr>)"
proof -
  let ?lib = "script_ftp (\<lambda>p. []) (\<lambda>p. None)"
  let ?dial = "EvDial (Ftp_config (Ftp_defaults Map.empty)) ''localhost:21''"
  have ne: "Map.empty \<noteq> Ftp_defaults Map.empty"
    using filled_not_empty by (simp only: Ftp_defaults_empty) (rule not_sym)
  have miss1: "cache_Get Map.empty (Map.empty :: params) = (None :: Ftp option)"
    by (simp add: cache_Get_def)
  have miss2: "cache_Get [Ftp_defaults Map.empty \<mapsto> \<lparr>client = 0\<rparr>] Map.empty = None"
    using ne by (simp add: cache_Get_def)
  have dial1: "ftp_DialConfig ?lib (Ftp_config (Ftp_defaults Map.empty))
      (Ftp_addr (Ftp_defaults Map.empty)) [] = (Inr 0, [?dial])"
    by (simp add: script_ftp_def Ftp_addr_empty)
  have dial2: "ftp_DialConfig ?lib (Ftp_config (Ftp_defaults Map.empty))
      (Ftp_addr (Ftp_defaults Map.empty)) [?dial, EvReadDir 0 ''/''] =
      (Inr 2, [?dial, EvReadDir 0 ''/'', ?dial])"
    by (simp add: script_ftp_def Ftp_addr_empty)
  have probe: "ftp_ReadDir ?lib c ''/'' w = (([], None), w @ [EvReadDir c ''/''])" for c w
    by (simp add: script_ftp_def)
  have first: "Ftp_Init ?lib Map.empty \<lparr>FtpCache = Map.empty, ftp_world = []\<rparr> =
     (Inr \<lparr>client = 0\<rparr>, Ftp_defaults Map.empty,
      \<lparr>FtpCache = [Ftp_defaults Map.empty \<mapsto> \<lparr>client = 0\<rparr>],
       ftp_world = [?dial, EvReadDir 0 ''/'']\<rparr>)"
    by (simp add: Ftp_Init_def Let_def miss1 dial1 probe cache_Set_def)
  have second: "Ftp_Init ?lib Map.empty
      \<lparr>FtpCache = [Ftp_defaults Map.empty \<mapsto> \<lparr>client = 0\<rparr>],
       ftp_world = [?dial, EvReadDir 0 ''/'']\<rparr> =
     (Inr \<lparr>client = 2\<rparr>, Ftp_defaults Map.empty,
      \<lparr>FtpCache = [Ftp_defaults Map.empty \<mapsto> \<lparr>client = 2\<rparr>],
       ftp_world = [?dial, EvReadDir 0 ''/'', ?dial, EvReadDir 2 ''/'']\<rparr>)"
    by (simp add: Ftp_Init_def Let_def miss2 dial2 probe cache_Set_def)
  show ?thesis
    by (rule conjI [OF first second])
qed

section \<open>Touch and the write of an empty source\<close>

lemma Ftp_Touch_Save: "Ftp_Touch lib f path w = Ftp_Save lib f path (NewReader []) w"
  by (simp add: Ftp_Touch_def Ftp_Save_def)

lemma toSambaPath_error: "toSambaPath smb path = Inl e \<Longrightarrow> e = ErrNotFound"
  by (simp add: toSambaPath_def Let_def Split_not_Nil split: option.splits)

lemma fromSambaErr_idem: "fromSambaErr (fromSambaErr e) = fromSambaErr e"
  by (simp add: fromSambaErr_def IsPermission_def IsNotExist_def)

lemma fromSambaErr_NotFound: "fromSambaErr (Some ErrNotFound) = Some ErrNotFound"
  by (simp add: fromSambaErr_def IsPermission_def IsNotExist_def)

lemma fromSambaErr_None: "fromSambaErr None = None"
  by (simp add: fromSambaErr_def IsPermission_def IsNotExist_def)

lemma io_Copy_empty: "io_Copy lib f (NewReader []) w = (None, w)"
  by (simp add: NewReader_def)

lemma Samba_Touch_Save:
  "Samba_Touch lib smb path w =
     (fromSambaErr (fst (Samba_Save lib smb path (NewReader []) w)),
      snd (Samba_Save lib smb path (NewReader []) w))"
  by (auto simp: Samba_Touch_def Samba_Save_def io_Copy_empty fromSambaErr_idem
      fromSambaErr_NotFound dest: toSambaPath_error split: sum.splits prod.splits)

lemma resolve_new:
  "toSambaPath \<lparr>session = 0, share = [(''a'', 7)]\<rparr> ''a/new.txt'' = Inr (7, ''new.txt'')"
  by (simp add: toSambaPath_def Let_def Trim_def TrimLeft_def TrimRight_def backslash_def)

text \<open>
  C9. \<open>Ftp.Touch\<close> is \<open>Ftp.Save\<close> of the empty reader (\<open>Ftp_Touch_Save\<close>). In the SMB
  adapter the two make the same calls and fail together, but \<open>Samba.Touch\<close> passes the
  error of the final \<open>Close\<close> through \<open>fromSambaErr\<close> and \<open>Samba.Save\<close> returns it as
  it is (\<open>Samba_Touch_Save\<close>): when \<open>Close\<close> fails with a permission error, touch
  returns the permission-denied error of the shared taxonomy and the write of an empty
  source returns the library's error.
\<close>

theorem Samba_Touch_Save_close_error:
  "Samba_Touch (script_smb [] (\<lambda>p. None) (Some (OsError Permission ''access denied'')))
     \<lparr>session = 0, share = [(''a'', 7)]\<rparr> ''a/new.txt'' [] =
     (Some ErrPermissionDenied, [EvCreate 7 ''new.txt'', EvFileClose 0])
   \<and> Samba_Save (script_smb [] (\<lambda>p. None) (Some (OsError Permission ''access denied'')))
     \<lparr>session = 0, share = [(''a'', 7)]\<rparr> ''a/new.txt'' (NewReader []) [] =
     (Some (OsError Permission ''access denied''), [EvCreate 7 ''new.txt'', EvFileClose 0])"
proof -
  define lib where "lib = script_smb [] (\<lambda>p. None) (Some (OsError Permission ''access denied''))"
  have create: "smb_Create lib 7 ''new.txt'' [] = (Inr 0, [EvCreate 7 ''new.txt''])"
    by (simp add: lib_def script_smb_def)
  have close: "smb_FileClose lib 0 [EvCreate 7 ''new.txt''] =
      (Some (OsError Permission ''access denied''), [EvCreate 7 ''new.txt'', EvFileClose 0])"
    by (simp add: lib_def script_smb_def)
  have touch: "Samba_Touch lib \<lparr>session = 0, share = [(''a'', 7)]\<rparr> ''a/new.txt'' [] =
      (Some ErrPermissionDenied, [EvCreate 7 ''new.txt'', EvFileClose 0])"
    by (simp add: Samba_Touch_def resolve_new create close fromSambaErr_def IsPermission_def)
  have save: "Samba_Save lib \<lparr>session = 0, share = [(''a'', 7)]\<rparr> ''a/new.txt'' (NewReader []) [] =
      (Some (OsError Permission ''access denied''), [EvCreate 7 ''new.txt'', EvFileClose 0])"
    by (simp add: Samba_Save_def resolve_new create close io_Copy_empty)
  show ?thesis
    using touch save unfolding lib_def by (rule conjI)
qed

section \<open>Reading a file as a stream\<close>

text \<open>
  C8, as the claim states it, fails for the SMB adapter: \<open>Samba.Cat\<close> on a path whose
  share is not mounted returns no stream and the not-found error as the error of the
  call itself.
\<close>

theorem Samba_Cat_unknown_share:
  "Samba_Cat (script_smb [] (\<lambda>p. None) None) \<lparr>session = 0, share = [(''shareA'', 1)]\<rparr>
     ''other/file.txt'' [] = ((None, Some ErrNotFound), [])"
  by (simp add: Samba_Cat_def toSambaPath_def Let_def Trim_def TrimLeft_def TrimRight_def)

text \<open>
  C8, amended. For every path \<open>Ftp.Cat\<close> returns the read end of a pipe and a nil
  error and makes no call of its own (the world is unchanged): the transfer is the
  producer's. When the transfer fails the producer closes the read end with an error
  and a read on the pipe gives an error; when it succeeds the pipe ends with end of
  file. \<open>Samba.Cat\<close> resolves the path and opens the file in the call: a path that does
  not resolve and a failing \<open>Open\<close> are errors of the call (the latter normalised by
  \<open>fromSambaErr\<close>), and the opened file is the stream otherwise.
\<close>

theorem Cat_streams:
  "Ftp_Cat f path w = (((io_Pipe, Producer f path), None), w)
   \<and> (ftp_Retrieve lib (client f) path w' = ((bytes, Some e), w1)
      \<longrightarrow> run_producer lib (Producer f path) io_Pipe w' =
            (\<lparr>pipe_data = bytes, pipe_rerr = Some (AppError ''Problem'' 409), pipe_wclosed = True\<rparr>, w1)
          \<and> readCloseError (fst (run_producer lib (Producer f path) io_Pipe w')) = Some ErrClosedPipe)
   \<and> (ftp_Retrieve lib (client f) path w' = ((bytes, None), w1)
      \<longrightarrow> run_producer lib (Producer f path) io_Pipe w' =
            (\<lparr>pipe_data = bytes, pipe_rerr = None, pipe_wclosed = True\<rparr>, w1)
          \<and> readCloseError (fst (run_producer lib (Producer f path) io_Pipe w')) = None)
   \<and> (toSambaPath smb spath = Inl err
      \<longrightarrow> Samba_Cat slib smb spath sw = ((None, Some err), sw))
   \<and> (toSambaPath smb spath = Inr (sh, p) \<and> smb_Open slib sh p sw = (Inl err, sw1)
      \<longrightarrow> Samba_Cat slib smb spath sw = ((None, fromSambaErr (Some err)), sw1))
   \<and> (toSambaPath smb spath = Inr (sh, p) \<and> smb_Open slib sh p sw = (Inr fh, sw1)
      \<longrightarrow> Samba_Cat slib smb spath sw = ((Some fh, None), sw1))"
  by (simp add: Ftp_Cat_def io_Pipe_def CloseWithError_def pw_Close_def readCloseError_def
      Samba_Cat_def fromSambaErr_None)

lemma resolve_f:
  "toSambaPath \<lparr>session = 0, share = [(''a'', 7)]\<rparr> ''a/f.txt'' = Inr (7, ''f.txt'')"
  by (simp add: toSambaPath_def Let_def Trim_def TrimLeft_def TrimRight_def backslash_def)

lemma resolve_other:
  "toSambaPath \<lparr>session = 0, share = [(''a'', 7)]\<rparr> ''other/f.txt'' = Inl ErrNotFound"
  by (simp add: toSambaPath_def Let_def Trim_def TrimLeft_def TrimRight_def)

theorem Cat_streams_witness:
  "Ftp_Cat \<lparr>client = 0\<rparr> ''/gone.bin'' ([] :: ftp_event list) =
     (((io_Pipe, Producer \<lparr>client = 0\<rparr> ''/gone.bin''), None), [])
   \<and> run_producer (script_ftp (\<lambda>p. []) (\<lambda>p. Some (GoftpError 550 ''No such file'')))
       (Producer \<lparr>client = 0\<rparr> ''/gone.bin'') io_Pipe [] =
       (\<lparr>pipe_data = [], pipe_rerr = Some (AppError ''Problem'' 409), pipe_wclosed = True\<rparr>,
        [EvRetrieve 0 ''/gone.bin''])
   \<and> readCloseError (fst (run_producer (script_ftp (\<lambda>p. []) (\<lambda>p. Some (GoftpError 550 ''No such file'')))
       (Producer \<lparr>client = 0\<rparr> ''/gone.bin'') io_Pipe [])) = Some ErrClosedPipe
   \<and> run_producer (script_ftp (\<lambda>p. []) (\<lambda>p. None))
       (Producer \<lparr>client = 0\<rparr> ''/gone.bin'') io_Pipe [] =
       (\<lparr>pipe_data = [], pipe_rerr = None, pipe_wclosed = True\<rparr>, [EvRetrieve 0 ''/gone.bin''])
   \<and> readCloseError (fst (run_producer (script_ftp (\<lambda>p. []) (\<lambda>p. None))
       (Producer \<lparr>client = 0\<rparr> ''/gone.bin'') io_Pipe [])) = None
   \<and> Samba_Cat (script_smb [] (\<lambda>p. None) None) \<lparr>session = 0, share = [(''a'', 7)]\<rparr>
       ''other/f.txt'' [] = ((None, Some ErrNotFound), [])
   \<and> Samba_Cat (script_smb [] (\<lambda>p. Some (OsError NotExist ''no such file'')) None)
       \<lparr>session = 0, share = [(''a'', 7)]\<rparr> ''a/f.txt'' [] =
       ((None, Some ErrNotFound), [EvOpen 7 ''f.txt''])
   \<and> Samba_Cat (script_smb [] (\<lambda>p. None) None) \<lparr>session = 0, share = [(''a'', 7)]\<rparr>
       ''a/f.txt'' [] = ((Some 0, None), [EvOpen 7 ''f.txt''])"
proof -
  let ?f = "\<lparr>client = 0\<rparr>"
  let ?bad = "script_ftp (\<lambda>p. []) (\<lambda>p. Some (GoftpError 550 ''No such file''))"
  let ?good = "script_ftp (\<lambda>p. []) (\<lambda>p. None)"
  let ?smb = "\<lparr>session = 0, share = [(''a'', 7)]\<rparr>"
  let ?sbad = "script_smb [] (\<lambda>p. Some (OsError NotExist ''no such file'')) None"
  let ?sgood = "script_smb [] (\<lambda>p. None) None"
  have r1: "ftp_Retrieve ?bad (client ?f) ''/gone.bin'' [] =
      (([], Some (GoftpError 550 ''No such file'')), [EvRetrieve 0 ''/gone.bin''])"
    by (simp add: script_ftp_def)
  have r2: "ftp_Retrieve ?good (client ?f) ''/gone.bin'' [] = (([], None), [EvRetrieve 0 ''/gone.bin''])"
    by (simp add: script_ftp_def)
  have o1: "smb_Open ?sbad 7 ''f.txt'' [] = (Inl (OsError NotExist ''no such file''), [EvOpen 7 ''f.txt''])"
    by (simp add: script_smb_def)
  have o2: "smb_Open ?sgood 7 ''f.txt'' [] = (Inr 0, [EvOpen 7 ''f.txt''])"
    by (simp add: script_smb_def)
  note bad = Cat_streams [of ?f "''/gone.bin''" "[]" ?bad "[]" "[]" "GoftpError 550 ''No such file''"
      "[EvRetrieve 0 ''/gone.bin'']" ?smb "''other/f.txt''" ErrNotFound ?sgood "[]"]
  note good = Cat_streams [of ?f "''/gone.bin''" "[]" ?good "[]" "[]" _
      "[EvRetrieve 0 ''/gone.bin'']" ?smb "''a/f.txt''" "OsError NotExist ''no such file''" ?sbad "[]"
      7 "''f.txt''" "[EvOpen 7 ''f.txt'']"]
  note good2 = Cat_streams [of _ _ _ _ _ _ _ _ ?smb "''a/f.txt''" _ ?sgood "[]"
      7 "''f.txt''" "[EvOpen 7 ''f.txt'']" 0]
  have a: "Ftp_Cat ?f ''/gone.bin'' ([] :: ftp_event list) =
     (((io_Pipe, Producer ?f ''/gone.bin''), None), [])"
    by (rule bad [THEN conjunct1])
  note b = bad [THEN conjunct2, THEN conjunct1, THEN mp, OF r1]
  note c = good [THEN conjunct2, THEN conjunct2, THEN conjunct1, THEN mp, OF r2]
  note d = bad [THEN conjunct2, THEN conjunct2, THEN conjunct2, THEN conjunct1, THEN mp, OF resolve_other]
  have e: "Samba_Cat ?sbad ?smb ''a/f.txt'' [] = ((None, Some ErrNotFound), [EvOpen 7 ''f.txt''])"
    using good [THEN conjunct2, THEN conjunct2, THEN conjunct2, THEN conjunct2, THEN conjunct1,
        THEN mp, OF conjI [OF resolve_f o1]]
    by (simp add: fromSambaErr_def IsPermission_def IsNotExist_def)
  note g = good2 [THEN conjunct2, THEN conjunct2, THEN conjunct2, THEN conjunct2, THEN conjunct2,
        THEN mp, OF conjI [OF resolve_f o2]]
  show ?thesis
    by (rule conjI [OF a conjI [OF b [THEN conjunct1] conjI [OF b [THEN conjunct2]
          conjI [OF c [THEN conjunct1] conjI [OF c [THEN conjunct2] conjI [OF d conjI [OF e g]]]]]]])
qed

section \<open>The share table and the listing of the root\<close>

lemma set_update_subset: "set (AList.update k v al) \<subseteq> insert (k, v) (set al)"
  by (induction al) auto

lemma mount_shares_table:
  "mount_shares lib sess names sh w = (sh', w') \<Longrightarrow> distinct (map fst sh) \<Longrightarrow>
   distinct (map fst sh') \<and>
   (\<forall>name h. (name, h) \<in> set sh' \<longrightarrow> (name, h) \<in> set sh \<or>
      (name \<in> set names \<and> \<not> HasSuffix name ''$'' \<and>
       (\<exists>w0 w1. smb_Mount lib sess name w0 = (Inr h, w1))))"
proof (induction names arbitrary: sh w)
  case Nil
  then show ?case by auto
next
  case (Cons name names)
  show ?case
  proof (cases "HasSuffix name ''$''")
    case True
    with Cons.prems have "mount_shares lib sess names sh w = (sh', w')" by simp
    from Cons.IH [OF this Cons.prems(2)] show ?thesis by fastforce
  next
    case False
    obtain r w1 where m: "smb_Mount lib sess name w = (r, w1)"
      by (cases "smb_Mount lib sess name w")
    show ?thesis
    proof (cases r)
      case (Inl e)
      with Cons.prems False m have "mount_shares lib sess names sh w1 = (sh', w')" by simp
      from Cons.IH [OF this Cons.prems(2)] show ?thesis by fastforce
    next
      case (Inr h)
      with Cons.prems False m
      have run: "mount_shares lib sess names (AList.update name h sh) w1 = (sh', w')" by simp
      have d: "distinct (map fst (AList.update name h sh))"
        using Cons.prems(2) by (simp add: distinct_update)
      from Cons.IH [OF run d]
      have ih1: "distinct (map fst sh')"
        and ih2: "\<And>n x. (n, x) \<in> set sh' \<Longrightarrow> (n, x) \<in> set (AList.update name h sh) \<or>
            (n \<in> set names \<and> \<not> HasSuffix n ''$'' \<and>
             (\<exists>w0 w1. smb_Mount lib sess n w0 = (Inr x, w1)))"
        by auto
      have "(n, x) \<in> set sh \<or>
            (n \<in> set (name # names) \<and> \<not> HasSuffix n ''$'' \<and>
             (\<exists>w0 w1. smb_Mount lib sess n w0 = (Inr x, w1)))"
        if mem: "(n, x) \<in> set sh'" for n x
      proof (cases "(n, x) \<in> set sh")
        case True
        then show ?thesis by simp
      next
        case notin: False
        from ih2 [OF mem] show ?thesis
        proof
          assume "(n, x) \<in> set (AList.update name h sh)"
          with set_update_subset [of name h sh] notin have "n = name" "x = h" by auto
          with False m Inr show ?thesis by auto
        next
          assume "n \<in> set names \<and> \<not> HasSuffix n ''$'' \<and>
             (\<exists>w0 w1. smb_Mount lib sess n w0 = (Inr x, w1))"
          then show ?thesis by auto
        qed
      qed
      with ih1 show ?thesis by blast
    qed
  qed
qed

lemma Samba_Ls_root:
  "Samba_Ls lib smb ''/'' w =
     ((map (\<lambda>key. AppFile \<lparr>FName = key, FType = ''directory''\<rparr>) (map fst (share smb)), None), w)"
  by (simp add: Samba_Ls_def)

lemma Samba_Init_table:
  assumes miss: "cache_Get (SambaCache st) params = None"
    and init: "Samba_Init lib params st = (Inr s, st')"
  shows "distinct (map fst (share s)) \<and>
    (\<exists>names w2 w3. smb_ListSharenames lib (session s) w2 = (Inr names, w3) \<and>
      (\<forall>name h. (name, h) \<in> set (share s) \<longrightarrow>
         name \<in> set names \<and> \<not> HasSuffix name ''$'' \<and>
         (\<exists>w0 w1. smb_Mount lib (session s) name w0 = (Inr h, w1))))"
proof -
  from miss init obtain conn w1 sess w2 names w3 sh w4 where
    "smb_ListSharenames lib sess w2 = (Inr names, w3)"
    and mnt: "mount_shares lib sess names [] w3 = (sh, w4)"
    and s: "s = \<lparr>session = sess, share = sh\<rparr>"
    by (auto simp: Samba_Init_def Let_def split: prod.splits sum.splits)
  moreover from mount_shares_table [OF mnt]
  have "distinct (map fst sh)"
    and "\<forall>name h. (name, h) \<in> set sh \<longrightarrow>
      name \<in> set names \<and> \<not> HasSuffix name ''$'' \<and>
      (\<exists>w0 w1. smb_Mount lib sess name w0 = (Inr h, w1))"
    by auto
  ultimately show ?thesis
    by auto
qed

lemma HasSuffix_docs: "\<not> HasSuffix ''docs'' ''$''" "HasSuffix ''IPC$'' ''$''" "\<not> HasSuffix ''broken'' ''$''"
  by (simp_all add: HasSuffix_def)

text \<open>
  C10. \<open>Samba.Ls\<close> of \<open>/\<close> returns no error, one entry of type \<open>directory\<close> for each
  key of the share table, and leaves the world as it was (no call is made). The table
  that \<open>Samba.Init\<close> builds on a cache miss has distinct keys, and each key is a name
  that \<open>ListSharenames\<close> returned, does not end in \<open>$\<close>, and is bound to the handle that
  a successful \<open>Mount\<close> of that name returned: a share whose mount fails is not in it.
\<close>

theorem Samba_Ls_root_share_table:
  "Samba_Ls lib smb ''/'' w =
     ((map (\<lambda>key. AppFile \<lparr>FName = key, FType = ''directory''\<rparr>) (map fst (share smb)), None), w)
   \<and> (cache_Get (SambaCache st) params = None \<and> Samba_Init lib params st = (Inr s, st')
      \<longrightarrow> distinct (map fst (share s)) \<and>
          (\<exists>names w2 w3. smb_ListSharenames lib (session s) w2 = (Inr names, w3) \<and>
            (\<forall>name h. (name, h) \<in> set (share s) \<longrightarrow>
               name \<in> set names \<and> \<not> HasSuffix name ''$'' \<and>
               (\<exists>w0 w1. smb_Mount lib (session s) name w0 = (Inr h, w1)))))"
  using Samba_Ls_root [of lib smb w] Samba_Init_table [of st params lib s st']
  by blast

theorem Samba_Ls_root_share_table_witness:
  "cache_Get (SambaCache \<lparr>SambaCache = Map.empty, smb_world = ([] :: smb_event list)\<rparr>)
     [''host'' \<mapsto> ''nas''] = None
   \<and> Samba_Init
       (script_smb [''docs'', ''IPC$'', ''broken'']
          (\<lambda>p. if p = ''broken'' then Some (OtherError ''mount failed'') else None) None)
       [''host'' \<mapsto> ''nas''] \<lparr>SambaCache = Map.empty, smb_world = []\<rparr> =
       (Inr \<lparr>session = 1, share = [(''docs'', 3)]\<rparr>,
        \<lparr>SambaCache = [[''host'' \<mapsto> ''nas''] \<mapsto> \<lparr>session = 1, share = [(''docs'', 3)]\<rparr>],
         smb_world =
           [EvDialTimeout ''tcp'' ''nas:445'' 10,
            EvSmbDial \<lparr>ntlm_User = ''Guest'', ntlm_Password = [], ntlm_Domain = []\<rparr> 0,
            EvListSharenames 1, EvMount 1 ''docs'', EvMount 1 ''broken'']\<rparr>)
   \<and> Samba_Ls
       (script_smb [''docs'', ''IPC$'', ''broken'']
          (\<lambda>p. if p = ''broken'' then Some (OtherError ''mount failed'') else None) None)
       \<lparr>session = 1, share = [(''docs'', 3)]\<rparr> ''/'' [] =
       (([AppFile \<lparr>FName = ''docs'', FType = ''directory''\<rparr>], None), [])
   \<and> distinct (map fst (share \<lparr>session = 1, share = [(''docs'', 3)]\<rparr>))"
proof -
  let ?lib = "script_smb [''docs'', ''IPC$'', ''broken'']
          (\<lambda>p. if p = ''broken'' then Some (OtherError ''mount failed'') else None) None"
  let ?st = "\<lparr>SambaCache = Map.empty, smb_world = ([] :: smb_event list)\<rparr>"
  let ?s = "\<lparr>session = 1, share = [(''docs'', 3)]\<rparr>"
  let ?st' = "\<lparr>SambaCache = [[''host'' \<mapsto> ''nas''] \<mapsto> ?s],
         smb_world =
           [EvDialTimeout ''tcp'' ''nas:445'' 10,
            EvSmbDial \<lparr>ntlm_User = ''Guest'', ntlm_Password = [], ntlm_Domain = []\<rparr> 0,
            EvListSharenames 1, EvMount 1 ''docs'', EvMount 1 ''broken'']\<rparr>"
  have miss: "cache_Get (SambaCache ?st) [''host'' \<mapsto> ''nas''] = None"
    by (simp add: cache_Get_def)
  have init: "Samba_Init ?lib [''host'' \<mapsto> ''nas''] ?st = (Inr ?s, ?st')"
    by (simp add: Samba_Init_def cache_Get_def cache_Set_def Samba_addr_def Samba_initiator_def
        param_def script_smb_def HasSuffix_docs Let_def eval_nat_numeral)
  note inst = Samba_Ls_root_share_table [of ?lib ?s "[]" ?st "[''host'' \<mapsto> ''nas'']" ?s ?st']
  have ls: "Samba_Ls ?lib ?s ''/'' [] = (([AppFile \<lparr>FName = ''docs'', FType = ''directory''\<rparr>], None), [])"
    using inst [THEN conjunct1] by simp
  note tab = inst [THEN conjunct2, THEN mp, OF conjI [OF miss init]]
  show ?thesis
    by (rule conjI [OF miss conjI [OF init conjI [OF ls tab [THEN conjunct1]]]])
qed

section \<open>The error policy of the recursive delete\<close>

lemma transformError_cases: "transformError x = None \<or> transformError x = x"
  by (auto simp: transformError_def split: option.splits error.splits)

lemma transformError_idem: "transformError x = Some e \<Longrightarrow> transformError (Some e) = Some e"
  using transformError_cases [of x] by auto

lemma Rm_results_genuine:
  "(\<forall>e w'. Ftp_Rm n lib f path w = Some (Some e, w') \<longrightarrow> transformError (Some e) = Some e)"
  "(\<forall>e w'. Ftp_Rm_entries n lib f path es w = Some (Some e, w') \<longrightarrow> transformError (Some e) = Some e)"
proof (induction n lib f path w and n lib f path es w rule: Ftp_Rm_Ftp_Rm_entries.induct)
  case (1 lib f path w)
  then show ?case by simp
next
  case (2 n lib f path w)
  show ?case
  proof (intro allI impI)
    fix e w' assume r: "Ftp_Rm (Suc n) lib f path w = Some (Some e, w')"
    show "transformError (Some e) = Some e"
    proof (cases "isDirectory path")
      case False
      with r obtain err where "transformError err = Some e"
        by (auto split: prod.splits)
      then show ?thesis by (rule transformError_idem)
    next
      case True
      obtain es err w1 where ls: "Ftp_Ls lib f path w = ((es, err), w1)"
        by (metis prod.exhaust)
      show ?thesis
      proof (cases "transformError err = None")
        case False
        with r True ls have "err = Some e" by simp
        with False transformError_cases [of err] show ?thesis by auto
      next
        case tol: True
        show ?thesis
        proof (cases "Ftp_Rm_entries n lib f path es w1")
          case None
          with r True ls tol show ?thesis by simp
        next
          case (Some res)
          obtain e2 w2 where res: "res = (e2, w2)" by (cases res)
          show ?thesis
          proof (cases e2)
            case (Some e3)
            with r True ls tol \<open>Ftp_Rm_entries n lib f path es w1 = Some res\<close> res
            have "e3 = e" "Ftp_Rm_entries n lib f path es w1 = Some (Some e, w2)" by auto
            moreover from tol have "\<not> transformError err \<noteq> None" by simp
            note 2(1) [OF True ls [symmetric] refl this]
            ultimately show ?thesis
              by auto
          next
            case None
            with r True ls tol \<open>Ftp_Rm_entries n lib f path es w1 = Some res\<close> res
            obtain err' where "transformError err' = Some e"
              by (auto split: prod.splits)
            then show ?thesis by (rule transformError_idem)
          qed
        qed
      qed
    qed
  qed
next
  case (3 n lib f path w)
  then show ?case by simp
next
  case (4 n lib f path entry entries w)
  show ?case
  proof (intro allI impI)
    fix e w' assume r: "Ftp_Rm_entries n lib f path (entry # entries) w = Some (Some e, w')"
    let ?child = "if IsDir entry then path @ Name entry @ ''/'' else path @ Name entry"
    from r obtain err w1 where c: "Ftp_Rm n lib f ?child w = Some (err, w1)"
      by (auto split: option.splits)
    show "transformError (Some e) = Some e"
    proof (cases "transformError err = None")
      case False
      with r c have "err = Some e" by simp
      with False transformError_cases [of err] show ?thesis by auto
    next
      case True
      with r c have "Ftp_Rm_entries n lib f path entries w1 = Some (Some e, w')" by simp
      moreover from True have "\<not> transformError err \<noteq> None" by simp
      note 4(2) [OF c refl this]
      ultimately show ?thesis by auto
    qed
  qed
qed

lemma transformError_None: "transformError None = None"
  by (simp add: transformError_def)

lemma Rm_genuine:
  "Ftp_Rm n lib f path w = Some (Some e, w') \<Longrightarrow> transformError (Some e) = Some e"
  using Rm_results_genuine(1) [of n lib f path w] by blast

lemma Rm_entries_abort:
  "Ftp_Rm_entries n lib f path es1 w = Some (None, wk) \<Longrightarrow>
   Ftp_Rm n lib f (if IsDir entry then path @ Name entry @ ''/'' else path @ Name entry) wk
     = Some (Some e, w') \<Longrightarrow>
   Ftp_Rm_entries n lib f path (es1 @ entry # es2) w = Some (Some e, w')"
proof (induction es1 arbitrary: w)
  case Nil
  from Nil(2) have "transformError (Some e) = Some e" by (rule Rm_genuine)
  with Nil show ?case by simp
next
  case (Cons a es1)
  let ?child = "if IsDir a then path @ Name a @ ''/'' else path @ Name a"
  from Cons.prems(1) obtain err w1 where c: "Ftp_Rm n lib f ?child w = Some (err, w1)"
    by (auto split: option.splits)
  from Cons.prems(1) c have tol: "transformError err = None"
    by (auto simp: transformError_None split: if_splits)
  with Cons.prems(1) c have "Ftp_Rm_entries n lib f path es1 w1 = Some (None, wk)"
    by simp
  from Cons.IH [OF this Cons.prems(2)] c tol show ?case
    by simp
qed

lemma isDirectory_d: "isDirectory ''/d/''" "\<not> isDirectory ''/d/a''" "\<not> isDirectory ''/d/b''"
  by (simp_all add: isDirectory_def)

text \<open>
  C4. \<open>transformError\<close> turns a \<open>goftp.Error\<close> whose code is in the success range
  (above 0, below 300) into nil and leaves every other error as it is. In \<open>Ftp.Rm\<close>:
  the deletion of a file returns the transformed error of \<open>Delete\<close>; after a child whose
  deletion returned nil the loop goes on with the next entry; when the entries before
  one have been deleted and the deletion of that one returns an error, \<open>Ftp.Rm\<close> of
  the directory returns this error and the world is the one this child left (the
  entries after it are not touched and the directory is not removed); after the loop
  the result is the transformed error of \<open>Rmdir\<close>; and an error of the listing outside
  the success range is returned before any deletion.
\<close>

theorem Rm_error_policy:
  "(0 < code \<and> code < 300 \<longrightarrow> transformError (Some (GoftpError code msg)) = None)
   \<and> (\<not> (0 < code \<and> code < 300)
      \<longrightarrow> transformError (Some (GoftpError code msg)) = Some (GoftpError code msg))
   \<and> ((\<forall>c m. e \<noteq> GoftpError c m) \<longrightarrow> transformError (Some e) = Some e)
   \<and> (\<not> isDirectory path \<and> ftp_Delete lib (client f) path w = (err, w1)
      \<longrightarrow> Ftp_Rm (Suc n) lib f path w = Some (transformError err, w1))
   \<and> (Ftp_Rm n lib f (if IsDir entry then path @ Name entry @ ''/'' else path @ Name entry) w
        = Some (None, w1)
      \<longrightarrow> Ftp_Rm_entries n lib f path (entry # es2) w = Ftp_Rm_entries n lib f path es2 w1)
   \<and> (isDirectory path \<and> Ftp_Ls lib f path w = ((es1 @ entry # es2, err), w1) \<and>
      transformError err = None \<and>
      Ftp_Rm_entries n lib f path es1 w1 = Some (None, wk) \<and>
      Ftp_Rm n lib f (if IsDir entry then path @ Name entry @ ''/'' else path @ Name entry) wk
        = Some (Some e', w')
      \<longrightarrow> Ftp_Rm (Suc n) lib f path w = Some (Some e', w'))
   \<and> (isDirectory path \<and> Ftp_Ls lib f path w = ((es, err), w1) \<and> transformError err = None \<and>
      Ftp_Rm_entries n lib f path es w1 = Some (None, w2) \<and>
      ftp_Rmdir lib (client f) path w2 = (err', w3)
      \<longrightarrow> Ftp_Rm (Suc n) lib f path w = Some (transformError err', w3))
   \<and> (isDirectory path \<and> Ftp_Ls lib f path w = ((es, err), w1) \<and> transformError err \<noteq> None
      \<longrightarrow> Ftp_Rm (Suc n) lib f path w = Some (err, w1))"
proof -
  have a: "0 < code \<and> code < 300 \<longrightarrow> transformError (Some (GoftpError code msg)) = None"
    by (simp add: transformError_def)
  have b: "\<not> (0 < code \<and> code < 300)
      \<longrightarrow> transformError (Some (GoftpError code msg)) = Some (GoftpError code msg)"
    by (auto simp: transformError_def)
  have c: "(\<forall>c m. e \<noteq> GoftpError c m) \<longrightarrow> transformError (Some e) = Some e"
    by (cases e) (simp_all add: transformError_def)
  have d: "\<not> isDirectory path \<and> ftp_Delete lib (client f) path w = (err, w1)
      \<longrightarrow> Ftp_Rm (Suc n) lib f path w = Some (transformError err, w1)"
    by simp
  have g: "Ftp_Rm n lib f (if IsDir entry then path @ Name entry @ ''/'' else path @ Name entry) w
        = Some (None, w1)
      \<longrightarrow> Ftp_Rm_entries n lib f path (entry # es2) w = Ftp_Rm_entries n lib f path es2 w1"
    by (simp add: transformError_None)
  have h: "isDirectory path \<and> Ftp_Ls lib f path w = ((es1 @ entry # es2, err), w1) \<and>
      transformError err = None \<and>
      Ftp_Rm_entries n lib f path es1 w1 = Some (None, wk) \<and>
      Ftp_Rm n lib f (if IsDir entry then path @ Name entry @ ''/'' else path @ Name entry) wk
        = Some (Some e', w')
      \<longrightarrow> Ftp_Rm (Suc n) lib f path w = Some (Some e', w')"
  proof (intro impI, elim conjE)
    assume dir: "isDirectory path"
      and ls: "Ftp_Ls lib f path w = ((es1 @ entry # es2, err), w1)"
      and tol: "transformError err = None"
      and before: "Ftp_Rm_entries n lib f path es1 w1 = Some (None, wk)"
      and fails: "Ftp_Rm n lib f (if IsDir entry then path @ Name entry @ ''/'' else path @ Name entry) wk
        = Some (Some e', w')"
    from Rm_entries_abort [OF before fails]
    have "Ftp_Rm_entries n lib f path (es1 @ entry # es2) w1 = Some (Some e', w')" .
    with dir ls tol show "Ftp_Rm (Suc n) lib f path w = Some (Some e', w')"
      by simp
  qed
  have i: "isDirectory path \<and> Ftp_Ls lib f path w = ((es, err), w1) \<and> transformError err = None \<and>
      Ftp_Rm_entries n lib f path es w1 = Some (None, w2) \<and>
      ftp_Rmdir lib (client f) path w2 = (err', w3)
      \<longrightarrow> Ftp_Rm (Suc n) lib f path w = Some (transformError err', w3)"
    by simp
  have j: "isDirectory path \<and> Ftp_Ls lib f path w = ((es, err), w1) \<and> transformError err \<noteq> None
      \<longrightarrow> Ftp_Rm (Suc n) lib f path w = Some (err, w1)"
    by simp
  show ?thesis
    by (rule conjI [OF a conjI [OF b conjI [OF c conjI [OF d conjI [OF g conjI [OF h conjI [OF i j]]]]]]])
qed

theorem Rm_error_policy_witness:
  "transformError (Some (GoftpError 226 ''Transfer complete'')) = None
   \<and> transformError (Some (GoftpError 550 ''Permission denied'')) = Some (GoftpError 550 ''Permission denied'')
   \<and> Ftp_Rm (Suc 0)
       (script_ftp
          (\<lambda>p. if p = ''/d/'' then [\<lparr>Name = ''a'', IsDir = False\<rparr>, \<lparr>Name = ''b'', IsDir = False\<rparr>,
                                    \<lparr>Name = ''c'', IsDir = False\<rparr>] else [])
          (\<lambda>p. if p = ''/d/a'' then Some (GoftpError 226 ''Transfer complete'')
               else if p = ''/d/b'' then Some (GoftpError 550 ''Permission denied'') else None))
       \<lparr>client = 0\<rparr> ''/d/a'' [] = Some (None, [EvDelete 0 ''/d/a''])
   \<and> Ftp_Rm (Suc (Suc 0))
       (script_ftp
          (\<lambda>p. if p = ''/d/'' then [\<lparr>Name = ''a'', IsDir = False\<rparr>, \<lparr>Name = ''b'', IsDir = False\<rparr>,
                                    \<lparr>Name = ''c'', IsDir = False\<rparr>] else [])
          (\<lambda>p. if p = ''/d/a'' then Some (GoftpError 226 ''Transfer complete'')
               else if p = ''/d/b'' then Some (GoftpError 550 ''Permission denied'') else None))
       \<lparr>client = 0\<rparr> ''/d/'' [] =
       Some (Some (GoftpError 550 ''Permission denied''),
             [EvReadDir 0 ''/d/'', EvDelete 0 ''/d/a'', EvDelete 0 ''/d/b''])"
proof -
  define lib where "lib = script_ftp
          (\<lambda>p. if p = ''/d/'' then [\<lparr>Name = ''a'', IsDir = False\<rparr>, \<lparr>Name = ''b'', IsDir = False\<rparr>,
                                    \<lparr>Name = ''c'', IsDir = False\<rparr>] else [])
          (\<lambda>p. if p = ''/d/a'' then Some (GoftpError 226 ''Transfer complete'')
               else if p = ''/d/b'' then Some (GoftpError 550 ''Permission denied'') else None)"
  let ?f = "\<lparr>client = 0\<rparr>"
  let ?a = "\<lparr>Name = ''a'', IsDir = False\<rparr>"
  let ?b = "\<lparr>Name = ''b'', IsDir = False\<rparr>"
  let ?c = "\<lparr>Name = ''c'', IsDir = False\<rparr>"
  let ?e226 = "GoftpError 226 ''Transfer complete''"
  let ?e550 = "GoftpError 550 ''Permission denied''"
  have code226: "(0::int) < 226 \<and> (226::int) < 300" by simp
  have code550: "\<not> ((0::int) < 550 \<and> (550::int) < 300)" by simp
  have ls: "Ftp_Ls lib ?f ''/d/'' [] = (([?a] @ ?b # [?c], None), [EvReadDir 0 ''/d/''])"
    by (simp add: Ftp_Ls_def lib_def script_ftp_def)
  have del_a: "ftp_Delete lib (client ?f) ''/d/a'' w = (Some ?e226, w @ [EvDelete 0 ''/d/a''])" for w
    by (simp add: lib_def script_ftp_def)
  have del_b: "ftp_Delete lib (client ?f) ''/d/b'' w = (Some ?e550, w @ [EvDelete 0 ''/d/b''])" for w
    by (simp add: lib_def script_ftp_def)
  note t226 = Rm_error_policy [THEN conjunct1, THEN mp, OF code226, of "''Transfer complete''"]
  note t550 = Rm_error_policy [THEN conjunct2, THEN conjunct1, THEN mp, OF code550, of "''Permission denied''"]
  note on_file = Rm_error_policy [THEN conjunct2, THEN conjunct2, THEN conjunct2, THEN conjunct1, THEN mp]
  have rm_a: "Ftp_Rm (Suc 0) lib ?f ''/d/a'' w = Some (None, w @ [EvDelete 0 ''/d/a''])" for w
    using on_file [OF conjI [OF isDirectory_d(2) del_a]] by (simp only: t226)
  have rm_b: "Ftp_Rm (Suc 0) lib ?f ''/d/b'' w = Some (Some ?e550, w @ [EvDelete 0 ''/d/b''])" for w
    using on_file [OF conjI [OF isDirectory_d(3) del_b]] by (simp only: t550)
  have before: "Ftp_Rm_entries (Suc 0) lib ?f ''/d/'' [?a] [EvReadDir 0 ''/d/'']
      = Some (None, [EvReadDir 0 ''/d/'', EvDelete 0 ''/d/a''])"
    by (simp add: rm_a transformError_None del: Ftp_Rm.simps)
  have fails: "Ftp_Rm (Suc 0) lib ?f (if IsDir ?b then ''/d/'' @ Name ?b @ ''/'' else ''/d/'' @ Name ?b)
      [EvReadDir 0 ''/d/'', EvDelete 0 ''/d/a'']
      = Some (Some ?e550, [EvReadDir 0 ''/d/'', EvDelete 0 ''/d/a'', EvDelete 0 ''/d/b''])"
    by (simp add: rm_b del: Ftp_Rm.simps)
  note abort = Rm_error_policy [THEN conjunct2, THEN conjunct2, THEN conjunct2, THEN conjunct2,
      THEN conjunct2, THEN conjunct1, THEN mp,
      OF conjI [OF isDirectory_d(1) conjI [OF ls conjI [OF transformError_None conjI [OF before fails]]]]]
  have rm_a0: "Ftp_Rm (Suc 0) lib ?f ''/d/a'' [] = Some (None, [EvDelete 0 ''/d/a''])"
    using rm_a [of "[]"] by simp
  show ?thesis
    unfolding lib_def [symmetric]
    by (rule conjI [OF t226 conjI [OF t550 conjI [OF rm_a0 abort]]])
qed

section \<open>The recursive delete\<close>

subsection \<open>The tree of the file-system server\<close>

lemma node_at_append: "node_at r ss = Some t \<Longrightarrow> node_at r (ss @ ss') = node_at t ss'"
  by (induction ss arbitrary: r) (auto split: node.splits option.splits)

lemma node_at_put: "node_at r ss = Some t0 \<Longrightarrow> node_at (put_node r ss t) ss = Some t"
  by (induction ss arbitrary: r) (auto split: node.splits option.splits simp: update_conv')

lemma put_put: "node_at r ss = Some t0 \<Longrightarrow> put_node (put_node r ss t1) ss t2 = put_node r ss t2"
  by (induction ss arbitrary: r) (auto split: node.splits option.splits simp: update_conv')

lemma unlink_child:
  "node_at r ss = Some (DirNode es) \<Longrightarrow> map_of es n = Some c \<Longrightarrow>
   unlink r (ss @ [n]) = put_node r ss (DirNode (AList.delete n es))"
  by (induction ss arbitrary: r) (auto split: node.splits option.splits)

lemma unlink_put:
  "node_at r ss = Some t0 \<Longrightarrow> ss \<noteq> [] \<Longrightarrow> unlink (put_node r ss t) ss = unlink r ss"
  by (induction ss arbitrary: r)
    (auto split: node.splits option.splits simp: update_conv' delete_update_same)

lemma node_at_unlink:
  "node_at r ss = Some t \<Longrightarrow> ss \<noteq> [] \<Longrightarrow> node_at (unlink r ss) (ss @ rest) = None"
  by (induction ss arbitrary: r)
    (auto split: node.splits option.splits simp: update_conv' delete_conv')

lemma put_node_same: "node_at r ss = Some t \<Longrightarrow> put_node r ss t = r"
  by (induction ss arbitrary: r) (auto split: node.splits option.splits simp: update_triv)

lemma delete_head: "fst e \<notin> fst ` set rest \<Longrightarrow> AList.delete (fst e) (e # rest) = rest"
  by (induction rest) (auto simp: AList.delete_eq)

subsection \<open>Paths of the entries of a directory\<close>

lemma Split_append_sep: "Split (a @ sep # b) sep = Split a sep @ Split b sep"
proof (induction a)
  case Nil
  show ?case by simp
next
  case (Cons c a)
  obtain w ws where s: "Split a sep = w # ws"
    using Split_not_Nil [of a sep] by (cases "Split a sep") auto
  with Cons show ?case by simp
qed

lemma Split_no_sep: "sep \<notin> set s \<Longrightarrow> Split s sep = [s]"
  by (induction s) auto

lemma isDirectory_snoc: "isDirectory p \<Longrightarrow> \<exists>p0. p = p0 @ ''/''"
  by (cases p rule: rev_cases) (auto simp: isDirectory_def)

lemma segments_child:
  assumes "isDirectory path" and "valid_name nm"
  shows "segments (path @ nm) = segments path @ [nm]"
    and "segments (path @ nm @ ''/'') = segments path @ [nm]"
proof -
  from assms(1) obtain p0 where p: "path = p0 @ ''/''"
    using isDirectory_snoc by blast
  from assms(2) have nm: "nm \<noteq> []" "CHR ''/'' \<notin> set nm"
    by (auto simp: valid_name_def)
  have base: "Split path CHR ''/'' = Split p0 CHR ''/'' @ [[]]"
    using Split_append_sep [of p0 "CHR ''/''" "[]"] by (simp add: p)
  have f: "Split (path @ nm) CHR ''/'' = Split p0 CHR ''/'' @ [nm]"
    using Split_append_sep [of p0 "CHR ''/''" nm] nm by (simp add: p Split_no_sep)
  have "Split (nm @ ''/'') CHR ''/'' = [nm, []]"
    using Split_append_sep [of nm "CHR ''/''" "[]"] nm by (simp add: Split_no_sep)
  then have d: "Split (path @ nm @ ''/'') CHR ''/'' = Split p0 CHR ''/'' @ [nm, []]"
    using Split_append_sep [of p0 "CHR ''/''" "nm @ ''/''"] by (simp add: p)
  show "segments (path @ nm) = segments path @ [nm]"
    using nm by (simp add: segments_def base f)
  show "segments (path @ nm @ ''/'') = segments path @ [nm]"
    using nm by (simp add: segments_def base d)
qed

lemma isDirectory_child:
  "isDirectory (path @ nm @ ''/'')" "valid_name nm \<Longrightarrow> \<not> isDirectory (path @ nm)"
proof -
  show "isDirectory (path @ nm @ ''/'')"
    by (simp add: isDirectory_def)
  assume "valid_name nm"
  then have "nm \<noteq> []" "last nm \<noteq> CHR ''/''"
    using last_in_set [of nm] unfolding valid_name_def by metis+
  then show "\<not> isDirectory (path @ nm)"
    by (simp add: isDirectory_def)
qed

lemma height_child: "e \<in> set es \<Longrightarrow> height (snd e) < height (DirNode es)"
proof -
  have "e \<in> set es \<Longrightarrow> height (snd e) \<le> foldr (\<lambda>e m. max (height (snd e)) m) es 0"
    by (induction es) auto
  then show "e \<in> set es \<Longrightarrow> height (snd e) < height (DirNode es)" by simp
qed

subsection \<open>\<open>Ftp.Rm\<close> on the file-system server\<close>

lemma tree_ReadDir:
  "node_at r (segments path) = Some (DirNode es) \<Longrightarrow>
   ftp_ReadDir tree_ftp c path \<lparr>tw_root = r, tw_trace = tr\<rparr> =
     ((map (\<lambda>e. \<lparr>Name = fst e, IsDir = is_dir (snd e)\<rparr>) es, None),
      \<lparr>tw_root = r, tw_trace = tr @ [EvReadDir c path]\<rparr>)"
  by (simp add: tree_ftp_def)

lemma tree_Delete:
  "node_at r (segments path) = Some FileNode \<Longrightarrow> segments path \<noteq> [] \<Longrightarrow>
   ftp_Delete tree_ftp c path \<lparr>tw_root = r, tw_trace = tr\<rparr> =
     (None, \<lparr>tw_root = unlink r (segments path), tw_trace = tr @ [EvDelete c path]\<rparr>)"
  by (simp add: tree_ftp_def)

lemma tree_Rmdir:
  "node_at r (segments path) = Some (DirNode []) \<Longrightarrow> segments path \<noteq> [] \<Longrightarrow>
   ftp_Rmdir tree_ftp c path \<lparr>tw_root = r, tw_trace = tr\<rparr> =
     (None, \<lparr>tw_root = unlink r (segments path), tw_trace = tr @ [EvRmdir c path]\<rparr>)"
  by (simp add: tree_ftp_def)

lemma Rm_entries_tree:
  assumes children: "\<And>e r' tr'. e \<in> set rest \<Longrightarrow> node_at r' (ss @ [fst e]) = Some (snd e) \<Longrightarrow>
      Ftp_Rm n tree_ftp f (if is_dir (snd e) then path @ fst e @ ''/'' else path @ fst e)
        \<lparr>tw_root = r', tw_trace = tr'\<rparr> =
      Some (None, \<lparr>tw_root = unlink r' (ss @ [fst e]),
                   tw_trace = tr' @ plan (client f)
                     (if is_dir (snd e) then path @ fst e @ ''/'' else path @ fst e) (snd e)\<rparr>)"
    and at: "node_at r ss = Some t0"
    and dist: "distinct (map fst rest)"
  shows "Ftp_Rm_entries n tree_ftp f path (map (\<lambda>e. \<lparr>Name = fst e, IsDir = is_dir (snd e)\<rparr>) rest)
      \<lparr>tw_root = put_node r ss (DirNode rest), tw_trace = tr\<rparr> =
    Some (None, \<lparr>tw_root = put_node r ss (DirNode []),
                 tw_trace = tr @ concat (map (\<lambda>e. plan (client f)
                   (if is_dir (snd e) then path @ fst e @ ''/'' else path @ fst e) (snd e)) rest)\<rparr>)"
  using children dist
proof (induction rest arbitrary: tr)
  case Nil
  show ?case by simp
next
  case (Cons e rest)
  let ?r' = "put_node r ss (DirNode (e # rest))"
  let ?cp = "if is_dir (snd e) then path @ fst e @ ''/'' else path @ fst e"
  have here: "node_at ?r' ss = Some (DirNode (e # rest))"
    using at by (rule node_at_put)
  have child: "node_at ?r' (ss @ [fst e]) = Some (snd e)"
    using node_at_append [OF here, of "[fst e]"] by simp
  have step: "Ftp_Rm n tree_ftp f ?cp \<lparr>tw_root = ?r', tw_trace = tr\<rparr> =
      Some (None, \<lparr>tw_root = unlink ?r' (ss @ [fst e]),
                   tw_trace = tr @ plan (client f) ?cp (snd e)\<rparr>)"
    using Cons.prems(1) [OF _ child] by simp
  have "unlink ?r' (ss @ [fst e]) = put_node ?r' ss (DirNode (AList.delete (fst e) (e # rest)))"
    using here by (rule unlink_child) simp
  also have "\<dots> = put_node r ss (DirNode (AList.delete (fst e) (e # rest)))"
    using at by (rule put_put)
  also have "AList.delete (fst e) (e # rest) = rest"
    using Cons.prems(2) by (intro delete_head) auto
  finally have after: "unlink ?r' (ss @ [fst e]) = put_node r ss (DirNode rest)" .
  have rest: "Ftp_Rm_entries n tree_ftp f path (map (\<lambda>e. \<lparr>Name = fst e, IsDir = is_dir (snd e)\<rparr>) rest)
      \<lparr>tw_root = put_node r ss (DirNode rest), tw_trace = tr @ plan (client f) ?cp (snd e)\<rparr> =
    Some (None, \<lparr>tw_root = put_node r ss (DirNode []),
                 tw_trace = (tr @ plan (client f) ?cp (snd e)) @ concat (map (\<lambda>e. plan (client f)
                   (if is_dir (snd e) then path @ fst e @ ''/'' else path @ fst e) (snd e)) rest)\<rparr>)"
    using Cons.prems by (intro Cons.IH) auto
  show ?case
  proof (cases "is_dir (snd e)")
    case True
    with step after rest show ?thesis
      by (simp add: transformError_None)
  next
    case False
    with step after rest show ?thesis
      by (simp add: transformError_None)
  qed
qed

lemma Rm_tree:
  "wf_node t \<Longrightarrow> node_at r ss = Some t \<Longrightarrow> segments path = ss \<Longrightarrow> ss \<noteq> [] \<Longrightarrow>
   isDirectory path = is_dir t \<Longrightarrow> height t < fuel \<Longrightarrow>
   Ftp_Rm fuel tree_ftp f path \<lparr>tw_root = r, tw_trace = tr\<rparr> =
     Some (None, \<lparr>tw_root = unlink r ss, tw_trace = tr @ plan (client f) path t\<rparr>)"
proof (induction t arbitrary: r ss path fuel tr)
  case FileNode
  from FileNode.prems(6) obtain n where fuel: "fuel = Suc n"
    by (cases fuel) auto
  from FileNode.prems
  have "\<not> isDirectory path" "node_at r (segments path) = Some FileNode" "segments path \<noteq> []"
    by (auto simp: is_dir_def)
  then show ?case
    using FileNode.prems(3) by (simp add: fuel tree_Delete transformError_None)
next
  case (DirNode es)
  from DirNode.prems(6) obtain n where fuel: "fuel = Suc n"
    by (cases fuel) auto
  have dir: "isDirectory path"
    using DirNode.prems(5) by (simp add: is_dir_def)
  have at: "node_at r (segments path) = Some (DirNode es)"
    using DirNode.prems by simp
  have children: "Ftp_Rm n tree_ftp f (if is_dir (snd e) then path @ fst e @ ''/'' else path @ fst e)
        \<lparr>tw_root = r', tw_trace = tr'\<rparr> =
      Some (None, \<lparr>tw_root = unlink r' (ss @ [fst e]),
                   tw_trace = tr' @ plan (client f)
                     (if is_dir (snd e) then path @ fst e @ ''/'' else path @ fst e) (snd e)\<rparr>)"
    if mem: "e \<in> set es" and child: "node_at r' (ss @ [fst e]) = Some (snd e)" for e r' tr'
  proof -
    let ?cp = "if is_dir (snd e) then path @ fst e @ ''/'' else path @ fst e"
    from mem DirNode.prems(1) have name: "valid_name (fst e)" and wf: "wf_node (snd e)"
      by auto
    have seg: "segments ?cp = ss @ [fst e]"
      using segments_child [OF dir name] DirNode.prems(3) by simp
    have kind: "isDirectory ?cp = is_dir (snd e)"
      using isDirectory_child(1) [of path "fst e"] isDirectory_child(2) [OF name, of path] by simp
    have h: "height (snd e) < n"
      using height_child [OF mem] DirNode.prems(6) fuel by simp
    have "snd e \<in> Basic_BNFs.snds e"
      by (cases e) simp
    from DirNode.IH [OF mem this wf child seg _ kind h] show ?thesis
      by simp
  qed
  have loop: "Ftp_Rm_entries n tree_ftp f path (map (\<lambda>e. \<lparr>Name = fst e, IsDir = is_dir (snd e)\<rparr>) es)
      \<lparr>tw_root = put_node r ss (DirNode es), tw_trace = tr @ [EvReadDir (client f) path]\<rparr> =
    Some (None, \<lparr>tw_root = put_node r ss (DirNode []),
                 tw_trace = (tr @ [EvReadDir (client f) path]) @ concat (map (\<lambda>e. plan (client f)
                   (if is_dir (snd e) then path @ fst e @ ''/'' else path @ fst e) (snd e)) es)\<rparr>)"
    using children DirNode.prems(2) DirNode.prems(1) by (intro Rm_entries_tree) auto
  have same: "put_node r ss (DirNode es) = r"
    using DirNode.prems(2) by (rule put_node_same)
  have empty: "node_at (put_node r ss (DirNode [])) (segments path) = Some (DirNode [])"
    using DirNode.prems(2,3) node_at_put by simp
  have gone: "unlink (put_node r ss (DirNode [])) ss = unlink r ss"
    using DirNode.prems(2,4) by (rule unlink_put)
  have ne: "segments path \<noteq> []"
    using DirNode.prems(3,4) by simp
  show ?case
    using dir loop
    by (simp add: fuel Ftp_Ls_def tree_ReadDir [OF at] same transformError_None
        tree_Rmdir [OF empty ne] gone DirNode.prems(3))
qed

text \<open>
  C3. A path without a trailing slash: \<open>Ftp.Rm\<close> makes the one call \<open>Delete\<close> of the
  path and returns its (transformed) error. A path with a trailing slash: after the
  listing and the loop over the listed entries, \<open>Ftp.Rm\<close> makes the call \<open>Rmdir\<close> of the
  path; the loop calls \<open>Ftp.Rm\<close> on each entry, under the path with the entry's name
  appended, and a slash appended for a directory. On the file-system server, for a path
  that names a tree with well-formed names, and a recursion depth above the depth of the
  tree: \<open>Ftp.Rm\<close> returns, with no error; the calls it has made are the listing of each
  directory, then the deletion of its entries in order, then its removal; the tree is
  unlinked from the server's tree, and nothing is left at or under the path.
\<close>

theorem Rm_recursive_delete:
  "(\<not> isDirectory path
      \<longrightarrow> Ftp_Rm (Suc n) lib f path w =
          Some (transformError (fst (ftp_Delete lib (client f) path w)),
                snd (ftp_Delete lib (client f) path w)))
   \<and> (isDirectory path \<and> Ftp_Ls lib f path w = ((es, err), w1) \<and> transformError err = None \<and>
       Ftp_Rm_entries n lib f path es w1 = Some (None, w2)
      \<longrightarrow> Ftp_Rm (Suc n) lib f path w =
          Some (transformError (fst (ftp_Rmdir lib (client f) path w2)),
                snd (ftp_Rmdir lib (client f) path w2)))
   \<and> (Ftp_Rm n lib f (if IsDir entry then path @ Name entry @ ''/'' else path @ Name entry) w
        = Some (None, w1)
      \<longrightarrow> Ftp_Rm_entries n lib f path (entry # es) w = Ftp_Rm_entries n lib f path es w1)
   \<and> (node_at (tw_root tw) (segments path) = Some t \<and> segments path \<noteq> [] \<and>
       isDirectory path = is_dir t \<and> wf_node t \<and> height t < fuel
      \<longrightarrow> Ftp_Rm fuel tree_ftp f path tw =
            Some (None, \<lparr>tw_root = unlink (tw_root tw) (segments path),
                         tw_trace = tw_trace tw @ plan (client f) path t\<rparr>)
          \<and> (\<forall>rest. node_at (unlink (tw_root tw) (segments path)) (segments path @ rest) = None))"
proof -
  have a: "\<not> isDirectory path
      \<longrightarrow> Ftp_Rm (Suc n) lib f path w =
          Some (transformError (fst (ftp_Delete lib (client f) path w)),
                snd (ftp_Delete lib (client f) path w))"
    by (simp split: prod.splits)
  have b: "isDirectory path \<and> Ftp_Ls lib f path w = ((es, err), w1) \<and> transformError err = None \<and>
       Ftp_Rm_entries n lib f path es w1 = Some (None, w2)
      \<longrightarrow> Ftp_Rm (Suc n) lib f path w =
          Some (transformError (fst (ftp_Rmdir lib (client f) path w2)),
                snd (ftp_Rmdir lib (client f) path w2))"
    by (simp split: prod.splits)
  have c: "Ftp_Rm n lib f (if IsDir entry then path @ Name entry @ ''/'' else path @ Name entry) w
        = Some (None, w1)
      \<longrightarrow> Ftp_Rm_entries n lib f path (entry # es) w = Ftp_Rm_entries n lib f path es w1"
    by (simp add: transformError_None)
  have d: "node_at (tw_root tw) (segments path) = Some t \<and> segments path \<noteq> [] \<and>
       isDirectory path = is_dir t \<and> wf_node t \<and> height t < fuel
      \<longrightarrow> Ftp_Rm fuel tree_ftp f path tw =
            Some (None, \<lparr>tw_root = unlink (tw_root tw) (segments path),
                         tw_trace = tw_trace tw @ plan (client f) path t\<rparr>)
          \<and> (\<forall>rest. node_at (unlink (tw_root tw) (segments path)) (segments path @ rest) = None)"
  proof (intro impI, elim conjE)
    assume at: "node_at (tw_root tw) (segments path) = Some t"
      and ne: "segments path \<noteq> []"
      and kind: "isDirectory path = is_dir t"
      and wf: "wf_node t"
      and h: "height t < fuel"
    have whole: "\<lparr>tw_root = tw_root tw, tw_trace = tw_trace tw\<rparr> = tw"
      by (cases tw) simp
    have "Ftp_Rm fuel tree_ftp f path \<lparr>tw_root = tw_root tw, tw_trace = tw_trace tw\<rparr> =
        Some (None, \<lparr>tw_root = unlink (tw_root tw) (segments path),
                     tw_trace = tw_trace tw @ plan (client f) path t\<rparr>)"
      using wf at refl ne kind h by (rule Rm_tree)
    moreover have "node_at (unlink (tw_root tw) (segments path)) (segments path @ rest) = None"
      for rest
      using at ne by (rule node_at_unlink)
    ultimately show "Ftp_Rm fuel tree_ftp f path tw =
            Some (None, \<lparr>tw_root = unlink (tw_root tw) (segments path),
                         tw_trace = tw_trace tw @ plan (client f) path t\<rparr>)
          \<and> (\<forall>rest. node_at (unlink (tw_root tw) (segments path)) (segments path @ rest) = None)"
      by (simp add: whole)
  qed
  show ?thesis
    by (rule conjI [OF a conjI [OF b conjI [OF c d]]])
qed

lemma segments_d: "segments ''/d/'' = [''d'']"
  by (simp add: segments_def)

theorem Rm_recursive_delete_witness:
  "Ftp_Rm (Suc (Suc (Suc 0))) tree_ftp \<lparr>client = 0\<rparr> ''/d/''
     \<lparr>tw_root = DirNode [(''d'', DirNode [(''a.txt'', FileNode),
                                          (''sub'', DirNode [(''b.txt'', FileNode)])]),
                         (''keep.txt'', FileNode)],
      tw_trace = []\<rparr> =
   Some (None,
     \<lparr>tw_root = DirNode [(''keep.txt'', FileNode)],
      tw_trace = [EvReadDir 0 ''/d/'', EvDelete 0 ''/d/a.txt'', EvReadDir 0 ''/d/sub/'',
                  EvDelete 0 ''/d/sub/b.txt'', EvRmdir 0 ''/d/sub/'', EvRmdir 0 ''/d/'']\<rparr>)
   \<and> node_at (DirNode [(''keep.txt'', FileNode)]) [''d'', ''sub'', ''b.txt''] = None"
proof -
  let ?t = "DirNode [(''a.txt'', FileNode), (''sub'', DirNode [(''b.txt'', FileNode)])]"
  let ?root = "DirNode [(''d'', ?t), (''keep.txt'', FileNode)]"
  let ?tw = "\<lparr>tw_root = ?root, tw_trace = []\<rparr>"
  have at: "node_at (tw_root ?tw) (segments ''/d/'') = Some ?t"
    by (simp add: segments_d)
  have ne: "segments ''/d/'' \<noteq> []"
    by (simp add: segments_d)
  have kind: "isDirectory ''/d/'' = is_dir ?t"
    by (simp add: isDirectory_def is_dir_def)
  have wf: "wf_node ?t"
    by (simp add: valid_name_def)
  have h: "height ?t < Suc (Suc (Suc 0))"
    by simp
  note inst = Rm_recursive_delete [THEN conjunct2, THEN conjunct2, THEN conjunct2, THEN mp,
      OF conjI [OF at conjI [OF ne conjI [OF kind conjI [OF wf h]]]], of "\<lparr>client = 0\<rparr>"]
  have gone: "unlink (tw_root ?tw) (segments ''/d/'') = DirNode [(''keep.txt'', FileNode)]"
    by (simp add: segments_d)
  have trace: "tw_trace ?tw @ plan (client \<lparr>client = 0\<rparr>) ''/d/'' ?t =
      [EvReadDir 0 ''/d/'', EvDelete 0 ''/d/a.txt'', EvReadDir 0 ''/d/sub/'',
       EvDelete 0 ''/d/sub/b.txt'', EvRmdir 0 ''/d/sub/'', EvRmdir 0 ''/d/'']"
    by (simp add: is_dir_def)
  have a: "Ftp_Rm (Suc (Suc (Suc 0))) tree_ftp \<lparr>client = 0\<rparr> ''/d/'' ?tw =
      Some (None,
        \<lparr>tw_root = DirNode [(''keep.txt'', FileNode)],
         tw_trace = [EvReadDir 0 ''/d/'', EvDelete 0 ''/d/a.txt'', EvReadDir 0 ''/d/sub/'',
                     EvDelete 0 ''/d/sub/b.txt'', EvRmdir 0 ''/d/sub/'', EvRmdir 0 ''/d/'']\<rparr>)"
    using inst [THEN conjunct1] by (simp only: gone trace)
  have b: "node_at (DirNode [(''keep.txt'', FileNode)]) [''d'', ''sub'', ''b.txt''] = None"
    using inst [THEN conjunct2, THEN spec, of "[''sub'', ''b.txt'']"]
    by (simp only: gone segments_d) simp
  show ?thesis
    by (rule conjI [OF a b])
qed

end
